theory Spec2Isabelle
  imports Complex_Main "HOL-Library.Sublist"
begin

section \<open>HV battery discharge controller (ngi.py): a shallow embedding\<close>

text \<open>
  The model follows \<^verbatim>\<open>src/ngi.py\<close> function by function and keeps its names.
  Conventions:
  \<^item> Python floats are modelled as \<^typ>\<open>real\<close>; rounding, infinities and NaN are outside
    the model.
  \<^item> Python \<^verbatim>\<open>str\<close> is \<^typ>\<open>string\<close>, restricted to ASCII.
  \<^item> Everything the outside world answers during one call (socket, clock, random
    numbers, dialogs, SQLite) is a field of the record \<open>env\<close>.
  \<^item> An exception that leaves a function is the outcome \<open>Raise\<close>; the mutations made
    before it stay in the returned state.
  \<^item> \<^verbatim>\<open>logging.warning\<close> and \<^verbatim>\<open>logging.error\<close> append to a log; info and debug
    messages, sounds and the widgets of the user interface (labels, buttons, message
    boxes without an answer, the plot, its step markers and the step timeline of the
    certificate) are not modelled.
\<close>

subsection \<open>Strings\<close>

definition py_upper_char :: "char \<Rightarrow> char" where
  "py_upper_char c =
     (case map_of (zip ''abcdefghijklmnopqrstuvwxyz'' ''ABCDEFGHIJKLMNOPQRSTUVWXYZ'') c of
        Some u \<Rightarrow> u | None \<Rightarrow> c)"

definition py_upper :: "string \<Rightarrow> string" where
  "py_upper s = map py_upper_char s"

definition py_lower_char :: "char \<Rightarrow> char" where
  "py_lower_char c =
     (case map_of (zip ''ABCDEFGHIJKLMNOPQRSTUVWXYZ'' ''abcdefghijklmnopqrstuvwxyz'') c of
        Some l \<Rightarrow> l | None \<Rightarrow> c)"

definition py_lower :: "string \<Rightarrow> string" where
  "py_lower s = map py_lower_char s"

text \<open>The ASCII characters \<^verbatim>\<open>str.isspace\<close> accepts: tab to carriage return, the four
  separators 28 to 31, and the blank.\<close>

definition py_isspace :: "char \<Rightarrow> bool" where
  "py_isspace c = ((of_char c :: nat) \<in> {9, 10, 11, 12, 13, 28, 29, 30, 31, 32})"

definition py_strip :: "string \<Rightarrow> string" where
  "py_strip s = rev (dropWhile py_isspace (rev (dropWhile py_isspace s)))"

definition py_startswith :: "string \<Rightarrow> string \<Rightarrow> bool" where
  "py_startswith s p = (take (length p) s = p)"

text \<open>\<^verbatim>\<open>sub in s\<close>.\<close>

fun py_in :: "string \<Rightarrow> string \<Rightarrow> bool" where
  "py_in sub [] = (sub = [])"
| "py_in sub (c # cs) = (py_startswith (c # cs) sub \<or> py_in sub cs)"

text \<open>
  \<^verbatim>\<open>s.replace(old, "")\<close>: every occurrence of \<open>old\<close> is deleted, scanning from the left
  without overlaps; an empty \<open>old\<close> deletes nothing.
\<close>

function py_remove :: "string \<Rightarrow> string \<Rightarrow> string" where
  "py_remove old [] = []"
| "py_remove old (c # cs) =
     (if old \<noteq> [] \<and> py_startswith (c # cs) old
      then py_remove old (drop (length old) (c # cs))
      else c # py_remove old cs)"
  by pat_completeness auto
termination
  by (relation "measure (\<lambda>(old, s). length s)") auto

text \<open>
  \<^verbatim>\<open>float(s)\<close> on a string over the characters \<^verbatim>\<open>0123456789.-+eE\<close> (the only strings
  \<open>parse_measurement\<close> passes to it): an optional sign; a mantissa of digits with at most
  one point and a digit on at least one side of it; an optional exponent, which is a
  marker, an optional sign and at least one digit. The result is \<open>None\<close> where
  \<^verbatim>\<open>float\<close> raises \<^verbatim>\<open>ValueError\<close>, and otherwise the exact value of the literal.
\<close>

definition is_digit :: "char \<Rightarrow> bool" where
  "is_digit c = (c \<in> set ''0123456789'')"

definition digit_val :: "char \<Rightarrow> nat" where
  "digit_val c = of_char c - 48"

definition digits_val :: "string \<Rightarrow> nat" where
  "digits_val ds = foldl (\<lambda>a c. 10 * a + digit_val c) 0 ds"

definition split_sign :: "string \<Rightarrow> bool \<times> string" where
  "split_sign s =
     (case s of
        [] \<Rightarrow> (False, [])
      | c # cs \<Rightarrow>
          if c = CHR ''-'' then (True, cs)
          else if c = CHR ''+'' then (False, cs)
          else (False, s))"

definition is_exp_marker :: "char \<Rightarrow> bool" where
  "is_exp_marker c = (c = CHR ''e'' \<or> c = CHR ''E'')"

definition py_exponent :: "string \<Rightarrow> int option" where
  "py_exponent ex =
     (if ex = [] then Some 0
      else
        let (eneg, ed) = split_sign (tl ex) in
        if ed \<noteq> [] \<and> list_all is_digit ed
        then Some (if eneg then - int (digits_val ed) else int (digits_val ed))
        else None)"

definition py_float :: "string \<Rightarrow> real option" where
  "py_float s =
     (let (neg, r) = split_sign s;
          mant = takeWhile (\<lambda>c. \<not> is_exp_marker c) r;
          ex = dropWhile (\<lambda>c. \<not> is_exp_marker c) r;
          ip = takeWhile (\<lambda>c. c \<noteq> CHR ''.'') mant;
          fp = tl (dropWhile (\<lambda>c. c \<noteq> CHR ''.'') mant)
      in if list_all is_digit ip \<and> list_all is_digit fp \<and> (ip \<noteq> [] \<or> fp \<noteq> []) then
           (case py_exponent ex of
              None \<Rightarrow> None
            | Some k \<Rightarrow>
                Some ((if neg then - 1 else 1)
                      * (real (digits_val ip) + real (digits_val fp) / 10 ^ length fp)
                      * 10 powi k))
         else None)"

subsection \<open>Exceptions and log messages\<close>

datatype exn = Sqlite_Error | Attribute_Error | Type_Error

datatype 'a outcome = Return 'a | Raise exn

text \<open>One constructor for each \<^verbatim>\<open>logging.warning\<close> and \<^verbatim>\<open>logging.error\<close> of the
  functions modelled, with the values its text shows.\<close>

datatype log_msg =
    Database_connection_error
  | Failed_to_start_new_discharge
  | Failed_to_log_data_point
  | Failed_to_finish_discharge
  | Not_connected_cannot_send_command string
  | Socket_error_sending_command string
  | Test_mode_query_called_directly string
  | Not_connected_cannot_send_query string
  | Query_returned_error_state string string
  | Socket_error_during_query string
  | Handling_connection_loss
  | Connection_failed
  | Migrating_old_CV_step
  | Adding_default_stop_condition string
  | Failed_stop_command
  | Cannot_send_stop_command_not_connected
  | Unsupported_type string
  | Failed_SCPI_step nat string
  | Failed_fetch
  | Simulation_failed
  | Unusual_step_time real
  | Update_loop_error exn
  | Fetch_measurements_in_test_mode
  | Failed_fetch_parse_real
  | Simulation_error exn
  | Could_not_parse string string
  | Failed_parsing_measurement string
  | Invalid_discharge_id_cannot_generate_report

subsection \<open>Profile steps\<close>

text \<open>A step is a JSON object: a dictionary from keys to JSON values.\<close>

datatype jval = JStr string | JNum real | JNull

type_synonym step = "string \<Rightarrow> jval option"

text \<open>\<^verbatim>\<open>step.get(key, default)\<close>.\<close>

definition step_get :: "step \<Rightarrow> string \<Rightarrow> jval \<Rightarrow> jval" where
  "step_get st k dflt = (case st k of None \<Rightarrow> dflt | Some v \<Rightarrow> v)"

text \<open>\<^verbatim>\<open>v.upper()\<close>: only a string has the method.\<close>

definition jval_upper :: "jval \<Rightarrow> exn + string" where
  "jval_upper v = (case v of JStr s \<Rightarrow> Inr (py_upper s) | _ \<Rightarrow> Inl Attribute_Error)"

text \<open>\<^verbatim>\<open>x <= v\<close> for a float \<open>x\<close>: a string or \<^verbatim>\<open>None\<close> on the right raises
  \<^verbatim>\<open>TypeError\<close>.\<close>

definition py_le :: "real \<Rightarrow> jval \<Rightarrow> exn + bool" where
  "py_le x v = (case v of JNum y \<Rightarrow> Inr (x \<le> y) | _ \<Rightarrow> Inl Type_Error)"

subsection \<open>The outside world\<close>

text \<open>
  What the environment answers during one call of the controller:
  whether SQLite opens the database and executes the statement; the wall clock of the
  database rows; whether \<^verbatim>\<open>sendall\<close> of a line succeeds; the reply to a query (\<open>None\<close>
  is a socket error or a timeout); whether the socket connects; \<^verbatim>\<open>time.time()\<close> read
  by the update loop and by the resume; the random numbers drawn by the simulation,
  in the order it draws them; the answers of the two dialogs. The last two fields
  are Python's formatting of a float (\<^verbatim>\<open>:.3f\<close>) and of a value (\<^verbatim>\<open>str\<close>), which the
  model does not compute.
\<close>

record env =
  db_connect_ok :: bool
  db_execute_ok :: bool
  datetime_now :: real
  send_ok :: "string \<Rightarrow> bool"
  query_reply :: "string \<Rightarrow> string option"
  socket_connect_ok :: bool
  time_now :: real
  time_resume :: real
  random1 :: real
  random2 :: real
  ask_comment :: "string option"
  ask_resume :: bool
  format_3f :: "real \<Rightarrow> string"
  py_str :: "jval \<Rightarrow> string"

subsection \<open>DatabaseManager\<close>

record discharge_row =
  row_id :: int
  row_registration_number :: string
  row_profile_name :: string
  row_start_time :: real
  row_end_time :: "real option"
  row_total_energy_discharged :: "real option"
  row_discharge_comment :: "string option"
  row_mode :: string

record data_point =
  dp_id :: int
  dp_discharge_id :: int
  dp_timestamp :: real
  dp_elapsed_time :: real
  dp_voltage :: real
  dp_current :: real
  dp_power :: real

text \<open>
  The two tables, each with the counter SQLite keeps for an \<^verbatim>\<open>AUTOINCREMENT\<close> key
  (the largest row id ever handed out).
\<close>

record database =
  discharges :: "discharge_row list"
  discharges_seq :: int
  data_points :: "data_point list"
  data_points_seq :: int

text \<open>
  A database call returns its outcome, the new database and the warnings and errors
  it logged. \<^verbatim>\<open>_get_connection\<close> logs and re-raises when \<^verbatim>\<open>sqlite3.connect\<close> fails; its
  callers open the connection before their \<^verbatim>\<open>try\<close>, so that exception leaves them too.
\<close>

type_synonym 'a db_result = "'a outcome \<times> database \<times> log_msg list"

definition get_connection :: "env \<Rightarrow> database \<Rightarrow> unit db_result" where
  "get_connection e d =
     (if db_connect_ok e then (Return (), d, [])
      else (Raise Sqlite_Error, d, [Database_connection_error]))"


definition log_data_point ::
  "env \<Rightarrow> int \<Rightarrow> real \<Rightarrow> real \<Rightarrow> real \<Rightarrow> real \<Rightarrow> database \<Rightarrow> unit db_result" where
  "log_data_point e discharge_id elapsed v c p d =
     (if discharge_id < 0 then (Return (), d, [])
      else
        case get_connection e d of
          (Raise x, d', msgs) \<Rightarrow> (Raise x, d', msgs)
        | (Return _, _) \<Rightarrow>
            if db_execute_ok e then
              let rowid = data_points_seq d + 1 in
              (Return (),
               d\<lparr>data_points := data_points d @
                    [\<lparr>dp_id = rowid, dp_discharge_id = discharge_id,
                      dp_timestamp = datetime_now e, dp_elapsed_time = elapsed,
                      dp_voltage = v, dp_current = c, dp_power = p\<rparr>],
                  data_points_seq := rowid\<rparr>,
               [])
            else (Return (), d, [Failed_to_log_data_point]))"

text \<open>The \<^verbatim>\<open>UPDATE ... WHERE id = ?\<close> of \<^verbatim>\<open>finish_discharge\<close>, on one row.\<close>

definition finish_row :: "env \<Rightarrow> int \<Rightarrow> real \<Rightarrow> string \<Rightarrow> discharge_row \<Rightarrow> discharge_row" where
  "finish_row e discharge_id energy comment r =
     (if row_id r = discharge_id
      then r\<lparr>row_end_time := Some (datetime_now e),
             row_total_energy_discharged := Some energy,
             row_discharge_comment := Some comment\<rparr>
      else r)"

definition finish_discharge ::
  "env \<Rightarrow> int \<Rightarrow> real \<Rightarrow> string \<Rightarrow> database \<Rightarrow> unit db_result" where
  "finish_discharge e discharge_id energy comment d =
     (if discharge_id < 0 then (Return (), d, [])
      else
        case get_connection e d of
          (Raise x, d', msgs) \<Rightarrow> (Raise x, d', msgs)
        | (Return _, _) \<Rightarrow>
            if db_execute_ok e then
              (Return (),
               d\<lparr>discharges := map (finish_row e discharge_id energy comment) (discharges d)\<rparr>,
               [])
            else (Return (), d, [Failed_to_finish_discharge]))"

subsection \<open>Parsing a measurement\<close>

text \<open>
  \<^verbatim>\<open>_parse_measurement\<close> returns the float or \<open>None\<close>, with what it logged. The
  \<^verbatim>\<open>ValueError\<close> of \<^verbatim>\<open>float\<close> is caught inside.
\<close>

definition allowed_char :: "char \<Rightarrow> bool" where
  "allowed_char c = (c \<in> set ''0123456789.-+eE'')"

definition parse_measurement :: "string option \<Rightarrow> string \<Rightarrow> real option \<times> log_msg list" where
  "parse_measurement response unit =
     (case response of
        None \<Rightarrow> (None, [])
      | Some r \<Rightarrow>
          let value_str = py_strip (py_remove (py_upper unit) (py_upper r)) in
          if value_str = [] \<or> \<not> list_all allowed_char value_str
             \<or> count_list value_str (CHR ''.'') > 1
             \<or> count_list value_str (CHR ''-'') > 1
             \<or> count_list value_str (CHR ''+'') > 1
          then (None, [Could_not_parse r unit])
          else
            case py_float value_str of
              None \<Rightarrow> (None, [Failed_parsing_measurement r])
            | Some x \<Rightarrow> (Some x, []))"

subsection \<open>Migration of a legacy step\<close>

text \<open>
  \<^verbatim>\<open>_migrate_profile_step\<close> changes the dictionary it is given and returns it; the model
  returns the new dictionary and what was logged. \<^verbatim>\<open>step.pop('stop_voltage')\<close> removes
  the key.
\<close>

definition migrate_profile_step :: "step \<Rightarrow> (step \<times> log_msg list) outcome" where
  "migrate_profile_step st =
     (if st ''stop_condition_type'' = None then
        case jval_upper (step_get st ''type'' (JStr ''CC'')) of
          Inl x \<Rightarrow> Raise x
        | Inr step_type \<Rightarrow>
            (case st ''stop_voltage'' of
               Some stop_value \<Rightarrow>
                 let st1 = st(''stop_voltage'' := None) in
                 if step_type = ''CV'' then
                   Return (st1(''stop_condition_type'' \<mapsto> JStr ''current'',
                               ''stop_condition_value'' \<mapsto> JNum 0.1),
                           [Migrating_old_CV_step])
                 else
                   Return (st1(''stop_condition_type'' \<mapsto> JStr ''voltage'',
                               ''stop_condition_value'' \<mapsto> stop_value),
                           [])
             | None \<Rightarrow>
                 if step_type = ''CV'' then
                   Return (st(''stop_condition_type'' \<mapsto> JStr ''current'',
                              ''stop_condition_value'' \<mapsto> JNum 0.1),
                           [Adding_default_stop_condition step_type])
                 else
                   Return (st(''stop_condition_type'' \<mapsto> JStr ''voltage'',
                              ''stop_condition_value'' \<mapsto> JNum 0),
                           [Adding_default_stop_condition step_type]))
      else Return (st, []))"

subsection \<open>The application state\<close>

text \<open>
  The attributes of \<^verbatim>\<open>HVBatteryDischargeApp\<close> that the controller reads and writes,
  with the configuration values it looks up. \<open>sock\<close> says that \<^verbatim>\<open>self.s\<close> is a socket
  (not \<^verbatim>\<open>None\<close>); \<open>reconnect_job\<close> and \<open>update_loop_jobs\<close> are the callbacks pending in
  the Tk scheduler (\<^verbatim>\<open>master.after\<close>). Three fields record what leaves the program:
  \<open>issued\<close> the commands handed to \<^verbatim>\<open>scpi_command\<close>, \<open>wire\<close> the lines sent on the
  socket, \<open>certificates\<close> the sessions for which \<^verbatim>\<open>create_discharge_certificate\<close> was
  asked for a report (reading the data back and drawing the PDF are not modelled).
\<close>

record app =
  test_mode :: bool
  auto_reconnect :: bool
  test_mode_initial_voltage :: real
  test_mode_cv_current_start :: real
  test_mode_cv_current_decay :: real
  connected :: bool
  sock :: bool
  running :: bool
  paused :: bool
  current_profile_data :: "step list"
  current_step :: nat
  discharge_comment :: string
  current_discharge_id :: int
  energy_discharged :: real
  start_time :: "real option"
  last_time :: "real option"
  data_x :: "real list"
  data_voltage :: "real list"
  data_current :: "real list"
  data_power :: "real list"
  sim_voltage :: real
  sim_current :: real
  sim_power :: real
  sim_resistance_factor :: real
  sim_cv_current :: real
  resume_available :: bool
  reconnect_job :: bool
  update_loop_jobs :: nat
  db :: database
  issued :: "string list"
  wire :: "string list"
  certificates :: "int list"
  log :: "log_msg list"

type_synonym 'a prog = "app \<Rightarrow> 'a outcome \<times> app"

text \<open>Sequencing: an exception ends the rest of the function.\<close>

definition then_do :: "'a outcome \<times> app \<Rightarrow> ('a \<Rightarrow> 'b prog) \<Rightarrow> 'b outcome \<times> app" where
  "then_do m f = (case m of (Return a, s) \<Rightarrow> f a s | (Raise x, s) \<Rightarrow> (Raise x, s))"

text \<open>A call of the database manager from the application.\<close>

definition db_call :: "'a db_result \<Rightarrow> app \<Rightarrow> 'a outcome \<times> app" where
  "db_call r s = (case r of (out, d, msgs) \<Rightarrow> (out, s\<lparr>db := d, log := log s @ msgs\<rparr>))"

definition logged :: "log_msg \<Rightarrow> app \<Rightarrow> app" where
  "logged m s = s\<lparr>log := log s @ [m]\<rparr>"

text \<open>Python's truth value of a time stamp: \<^verbatim>\<open>None\<close> and \<^verbatim>\<open>0.0\<close> are false.\<close>

definition truthy :: "real option \<Rightarrow> bool" where
  "truthy t = (case t of None \<Rightarrow> False | Some x \<Rightarrow> x \<noteq> 0)"

subsection \<open>Reconnect supervisor and connection loss\<close>

definition schedule_reconnect :: "app \<Rightarrow> app" where
  "schedule_reconnect s =
     (if test_mode s \<or> \<not> auto_reconnect s then s
      else if reconnect_job s then s
      else s\<lparr>reconnect_job := True\<rparr>)"

definition cancel_reconnect :: "app \<Rightarrow> app" where
  "cancel_reconnect s = s\<lparr>reconnect_job := False\<rparr>"

definition handle_connection_loss :: "env \<Rightarrow> unit prog" where
  "handle_connection_loss e s =
     (if test_mode s then (Return (), s)
      else
        let s1 = (logged Handling_connection_loss s)\<lparr>connected := False, sock := False\<rparr> in
        then_do
          (if running s1 then
             let s2 = s1\<lparr>running := False, paused := False\<rparr> in
             if current_discharge_id s2 \<noteq> - 1 then
               then_do
                 (db_call (finish_discharge e (current_discharge_id s2) (energy_discharged s2)
                             ''Connection Lost - Incomplete'' (db s2)) s2)
                 (\<lambda>_ s3. (Return (), s3\<lparr>current_discharge_id := - 1\<rparr>))
             else (Return (), s2)
           else (Return (), s1))
          (\<lambda>_ s4. (Return (), schedule_reconnect s4)))"

subsection \<open>SCPI transport\<close>

definition scpi_command :: "env \<Rightarrow> string \<Rightarrow> bool prog" where
  "scpi_command e command s0 =
     (let s = s0\<lparr>issued := issued s0 @ [command]\<rparr> in
      if test_mode s then (Return True, s)
      else if \<not> connected s \<or> \<not> sock s then
        (Return False, logged (Not_connected_cannot_send_command command) s)
      else if send_ok e (py_strip command) then
        (Return True, s\<lparr>wire := wire s @ [py_strip command]\<rparr>)
      else
        then_do (handle_connection_loss e (logged (Socket_error_sending_command command) s))
          (\<lambda>_ s1. (Return False, s1)))"

definition scpi_query :: "env \<Rightarrow> string \<Rightarrow> string option prog" where
  "scpi_query e query s =
     (if test_mode s \<and> py_startswith query ''MEAS'' then
        let s1 = logged (Test_mode_query_called_directly query) s in
        if py_in ''VOLT'' query then (Return (Some (format_3f e (sim_voltage s1) @ '' V'')), s1)
        else if py_in ''CURR'' query then (Return (Some (format_3f e (sim_current s1) @ '' A'')), s1)
        else if py_in ''POW'' query then (Return (Some (format_3f e (sim_power s1) @ '' W'')), s1)
        else (Return (Some ''TEST_MODE_DUMMY''), s1)
      else if test_mode s then
        (if query = ''*IDN?'' then (Return (Some ''Simulated Instrument, Model Test, S/N 12345''), s)
         else (Return (Some ''TEST_MODE_OK''), s))
      else if \<not> connected s \<or> \<not> sock s then
        (Return None, logged (Not_connected_cannot_send_query query) s)
      else
        case query_reply e (py_strip query) of
          Some reply \<Rightarrow>
            let response = py_strip reply;
                s1 = s\<lparr>wire := wire s @ [py_strip query]\<rparr> in
            (Return (Some response),
             if py_in ''error'' (py_lower response) \<or> py_in ''invalid'' (py_lower response)
             then logged (Query_returned_error_state query response) s1 else s1)
        | None \<Rightarrow>
            then_do (handle_connection_loss e (logged (Socket_error_during_query query) s))
              (\<lambda>_ s1. (Return None, s1)))"

text \<open>
  \<^verbatim>\<open>connect_instrument\<close> never raises: the identification query stands in a
  \<^verbatim>\<open>try\<close> whose handler passes. The status poll it starts only feeds the display.
\<close>

definition connect_instrument :: "env \<Rightarrow> app \<Rightarrow> bool \<times> app" where
  "connect_instrument e s =
     (if test_mode s then (True, s\<lparr>connected := True\<rparr>)
      else if connected s \<and> sock s then (True, s)
      else if socket_connect_ok e then
        (True, snd (scpi_query e ''*IDN?'' (cancel_reconnect (s\<lparr>sock := True, connected := True\<rparr>))))
      else
        (False, schedule_reconnect ((logged Connection_failed s)\<lparr>connected := False, sock := False\<rparr>)))"

text \<open>The callback \<^verbatim>\<open>tick\<close> that \<^verbatim>\<open>_schedule_reconnect\<close> hands to the scheduler.\<close>

definition reconnect_tick :: "env \<Rightarrow> app \<Rightarrow> app" where
  "reconnect_tick e s0 =
     (let s = s0\<lparr>reconnect_job := False\<rparr> in
      if \<not> connected s then
        (case connect_instrument e s of
           (True, s1) \<Rightarrow>
             if current_profile_data s1 \<noteq> [] \<and> current_step s1 < length (current_profile_data s1)
             then s1\<lparr>resume_available := True\<rparr>
             else s1
         | (False, s1) \<Rightarrow> schedule_reconnect s1)
      else s)"

subsection \<open>Stopping a run\<close>

text \<open>
  \<^verbatim>\<open>create_discharge_certificate\<close>, as far as its first check; \<^verbatim>\<open>stop_discharge\<close>
  calls it in a \<^verbatim>\<open>try\<close> that catches every exception.
\<close>

definition create_discharge_certificate :: "app \<Rightarrow> app" where
  "create_discharge_certificate s =
     (if current_discharge_id s = - 1 then logged Invalid_discharge_id_cannot_generate_report s
      else s\<lparr>certificates := certificates s @ [current_discharge_id s]\<rparr>)"

definition stop_discharge :: "env \<Rightarrow> bool \<Rightarrow> unit prog" where
  "stop_discharge e generate_report s0 =
     (let was_running = running s0;
          s = s0\<lparr>running := False, paused := False\<rparr> in
      then_do
        (if connected s then
           then_do (scpi_command e ''INPut:STATe 0'' s)
             (\<lambda>ok s1. (Return (), if \<not> ok \<and> \<not> test_mode s1 then logged Failed_stop_command s1 else s1))
         else (Return (), logged Cannot_send_stop_command_not_connected s))
        (\<lambda>_ s2.
           let s3 = s2\<lparr>discharge_comment :=
                        (if was_running \<and> generate_report
                         then (case ask_comment e of Some comment \<Rightarrow> py_strip comment | None \<Rightarrow> [])
                         else [])\<rparr> in
           then_do
             (if current_discharge_id s3 \<noteq> - 1 then
                db_call (finish_discharge e (current_discharge_id s3) (energy_discharged s3)
                           (discharge_comment s3) (db s3)) s3
              else (Return (), s3))
             (\<lambda>_ s4.
                let s5 = (if was_running \<and> generate_report \<and> data_x s4 \<noteq> []
                          then create_discharge_certificate s4 else s4) in
                (Return (), s5\<lparr>current_discharge_id := - 1\<rparr>))))"

subsection \<open>Applying a profile step\<close>

text \<open>The two commands of a step type, or \<open>None\<close> for a type the load does not have.\<close>

definition step_commands :: "env \<Rightarrow> string \<Rightarrow> jval \<Rightarrow> (string \<times> string) option" where
  "step_commands e step_type v =
     (if step_type = ''CC'' then Some (''INPut:FUNCtion CC'', ''STATic:CC:HIGH:LEVel '' @ py_str e v)
      else if step_type = ''CP'' then Some (''INPut:FUNCtion CP'', ''STATic:CP:HIGH:LEVel '' @ py_str e v)
      else if step_type = ''CV'' then Some (''INPut:FUNCtion CV'', ''STATic:CV:HIGH:LEVel '' @ py_str e v)
      else None)"

text \<open>What \<^verbatim>\<open>apply_profile_step\<close> does once the two commands have been issued.\<close>

definition check_step_commands :: "env \<Rightarrow> string \<Rightarrow> bool \<Rightarrow> bool \<Rightarrow> unit prog" where
  "check_step_commands e step_type func_set level_set s2 =
     (if \<not> (func_set \<and> level_set) \<and> \<not> test_mode s2 then
        stop_discharge e False
          (logged (Failed_SCPI_step (current_step s2 + 1)
                     (if \<not> func_set then ''(Set function failed)''
                      else ''(Set level failed)'')) s2)
      else if test_mode s2 then
        (Return (),
         if step_type = ''CV''
         then s2\<lparr>sim_cv_current := test_mode_cv_current_start s2\<rparr> else s2)
      else (Return (), s2))"

definition apply_profile_step :: "env \<Rightarrow> unit prog" where
  "apply_profile_step e s =
     (if \<not> running s \<or> paused s then (Return (), s)
      else if current_step s \<ge> length (current_profile_data s) then stop_discharge e True s
      else
        let step = current_profile_data s ! current_step s in
        case jval_upper (step_get step ''type'' (JStr ''CC'')) of
          Inl x \<Rightarrow> (Raise x, s)
        | Inr step_type \<Rightarrow>
            let v = step_get step ''value'' (JNum 0) in
            (case step_commands e step_type v of
               None \<Rightarrow> stop_discharge e False (logged (Unsupported_type step_type) s)
             | Some (function_command, level_command) \<Rightarrow>
                 then_do (scpi_command e function_command s)
                   (\<lambda>func_set s1.
                      then_do (scpi_command e level_command s1)
                        (\<lambda>level_set s2. check_step_commands e step_type func_set level_set s2))))"

subsection \<open>Measurement sources\<close>

text \<open>
  \<^verbatim>\<open>_simulate_measurements\<close> catches every exception and then returns three \<^verbatim>\<open>None\<close>;
  the only ones it can meet are the \<^verbatim>\<open>AttributeError\<close> of a step type that is not a
  string and the \<^verbatim>\<open>TypeError\<close> of arithmetic on a target value that is not a number,
  both before the simulated state has changed.
\<close>

definition clamp_simulation :: "app \<Rightarrow> app" where
  "clamp_simulation s =
     (let s1 = s\<lparr>sim_voltage := max 0 (sim_voltage s)\<rparr> in
      if sim_voltage s1 < 1 then s1\<lparr>sim_current := 0, sim_power := 0\<rparr> else s1)"

definition simulated_reading :: "app \<Rightarrow> (real \<times> real \<times> real) option \<times> app" where
  "simulated_reading s = (Some (sim_voltage s, sim_current s, sim_power s), s)"

definition simulate_measurements :: "env \<Rightarrow> app \<Rightarrow> (real \<times> real \<times> real) option \<times> app" where
  "simulate_measurements e s =
     (if \<not> running s \<or> paused s \<or> current_profile_data s = []
         \<or> current_step s \<ge> length (current_profile_data s)
      then simulated_reading s
      else
        let step = current_profile_data s ! current_step s in
        case jval_upper (step_get step ''type'' (JStr ''CC'')) of
          Inl x \<Rightarrow> (None, logged (Simulation_error x) s)
        | Inr step_type \<Rightarrow>
            let target_value = step_get step ''value'' (JNum 0);
                resist = sim_resistance_factor s;
                cv_decay = test_mode_cv_current_decay s in
            if step_type = ''CC'' then
              (case target_value of
                 JNum target \<Rightarrow>
                   let s1 = s\<lparr>sim_current := target * (1 + random1 e)\<rparr>;
                       s2 = s1\<lparr>sim_voltage := sim_voltage s1 - (sim_current s1 * resist + random2 e)\<rparr>;
                       s3 = s2\<lparr>sim_power := sim_voltage s2 * sim_current s2\<rparr>
                   in simulated_reading (clamp_simulation s3)
               | _ \<Rightarrow> (None, logged (Simulation_error Type_Error) s))
            else if step_type = ''CP'' then
              (case target_value of
                 JNum target \<Rightarrow>
                   let s1 = s\<lparr>sim_power := target * (1 + random1 e)\<rparr>;
                       s2 = s1\<lparr>sim_current := (if sim_voltage s1 > 1 then sim_power s1 / sim_voltage s1 else 0)\<rparr>;
                       s3 = s2\<lparr>sim_voltage := sim_voltage s2 - (sim_current s2 * resist * 0.5 + random2 e)\<rparr>
                   in simulated_reading (clamp_simulation s3)
               | _ \<Rightarrow> (None, logged (Simulation_error Type_Error) s))
            else if step_type = ''CV'' then
              (case target_value of
                 JNum target_voltage \<Rightarrow>
                   let diff = target_voltage - sim_voltage s;
                       s1 = s\<lparr>sim_voltage := sim_voltage s + (diff * 0.1 + random1 e)\<rparr>;
                       s2 = s1\<lparr>sim_cv_current := max 0.01 (sim_cv_current s1 * (1 - cv_decay))\<rparr>;
                       s3 = s2\<lparr>sim_current := sim_cv_current s2 * (1 + random2 e)\<rparr>;
                       s4 = s3\<lparr>sim_power := sim_voltage s3 * sim_current s3\<rparr>
                   in simulated_reading (clamp_simulation s4)
               | _ \<Rightarrow> (None, logged (Simulation_error Type_Error) s))
            else
              simulated_reading
                (clamp_simulation
                   (s\<lparr>sim_current := 0, sim_power := 0, sim_voltage := sim_voltage s - random1 e\<rparr>)))"

definition fetch_measurements :: "env \<Rightarrow> (real \<times> real \<times> real) option prog" where
  "fetch_measurements e s =
     (if test_mode s then
        (case simulate_measurements e (logged Fetch_measurements_in_test_mode s) of
           (r, s1) \<Rightarrow> (Return r, s1))
      else if \<not> connected s then (Return None, s)
      else
        then_do (scpi_query e ''MEASure:VOLTage?'' s) (\<lambda>v_str s1.
        then_do (scpi_query e ''MEASure:CURRent?'' s1) (\<lambda>c_str s2.
        then_do (scpi_query e ''MEASure:POWer?'' s2) (\<lambda>p_str s3.
          let (voltage, l1) = parse_measurement v_str ''V'';
              (current, l2) = parse_measurement c_str ''A'';
              (power_w, l3) = parse_measurement p_str ''W'';
              s4 = s3\<lparr>log := log s3 @ l1 @ l2 @ l3\<rparr> in
          case (voltage, current, power_w) of
            (Some v, Some c, Some p) \<Rightarrow> (Return (Some (v, c, p)), s4)
          | _ \<Rightarrow> (Return None, logged Failed_fetch_parse_real s4)))))"

subsection \<open>The update loop\<close>

text \<open>The acquisition of \<^verbatim>\<open>run_update_loop\<close>: simulated in test mode, fetched otherwise.\<close>

definition read_measurements :: "env \<Rightarrow> (real \<times> real \<times> real) option prog" where
  "read_measurements e s =
     (if test_mode s then (case simulate_measurements e s of (r, s1) \<Rightarrow> (Return r, s1))
      else fetch_measurements e s)"

text \<open>The energy integration of one tick, with \<open>current_time\<close> the clock just read.\<close>

definition integrate_energy :: "real \<Rightarrow> real \<Rightarrow> app \<Rightarrow> app" where
  "integrate_energy current_time power_w s =
     (if truthy (start_time s) then
        (if truthy (last_time s) then
           let elapsed_step = current_time - the (last_time s) in
           if 0 < elapsed_step \<and> elapsed_step < 5
           then s\<lparr>energy_discharged := energy_discharged s + (power_w * elapsed_step) / 3600000\<rparr>
           else logged (Unusual_step_time elapsed_step) s
         else s)
      else s)"

text \<open>
  The stop condition of the active step: \<open>Inr True\<close> when it is met. The comparison
  raises on a threshold that is not a number.
\<close>

definition stop_condition_met :: "app \<Rightarrow> real \<Rightarrow> real \<Rightarrow> step \<Rightarrow> exn + bool" where
  "stop_condition_met s voltage current step =
     (let stop_type = step_get step ''stop_condition_type'' (JStr ''voltage'');
          stop_value = step_get step ''stop_condition_value'' (JNum 0) in
      if stop_type = JStr ''voltage'' then
        py_le (if test_mode s then sim_voltage s else voltage) stop_value
      else if stop_type = JStr ''current'' then
        py_le (if test_mode s then sim_current s else current) stop_value
      else Inr False)"

text \<open>
  The part of a tick between the acquisition and the database: the clock is read,
  the energy integrated, and the sample appended. The value is \<open>elapsed_total\<close>.
\<close>

definition record_sample :: "env \<Rightarrow> real \<Rightarrow> real \<Rightarrow> real \<Rightarrow> app \<Rightarrow> real \<times> app" where
  "record_sample e voltage current power_w s1 =
     (let current_time = time_now e;
          elapsed_total = (if truthy (start_time s1) then current_time - the (start_time s1) else 0);
          s2 = (integrate_energy current_time power_w s1)\<lparr>last_time := Some current_time\<rparr>
      in (elapsed_total,
          s2\<lparr>data_x := data_x s2 @ [elapsed_total],
             data_voltage := data_voltage s2 @ [voltage],
             data_current := data_current s2 @ [current],
             data_power := data_power s2 @ [power_w]\<rparr>))"

text \<open>The end of a tick: the stop condition of the active step, and the step change.\<close>

definition advance_if_complete :: "env \<Rightarrow> real \<Rightarrow> real \<Rightarrow> bool prog" where
  "advance_if_complete e voltage current s4 =
     (if current_step s4 < length (current_profile_data s4) then
        (case stop_condition_met s4 voltage current
                (current_profile_data s4 ! current_step s4) of
           Inl x \<Rightarrow> (Raise x, s4)
         | Inr stop_met \<Rightarrow>
             if stop_met then
               then_do (apply_profile_step e (s4\<lparr>current_step := current_step s4 + 1\<rparr>))
                 (\<lambda>_ s5. (Return False, s5))
             else (Return False, s4))
      else (Return False, s4))"

text \<open>What a tick does with an acquired reading: lines 1402 to 1442.\<close>

definition process_reading :: "env \<Rightarrow> real \<Rightarrow> real \<Rightarrow> real \<Rightarrow> bool prog" where
  "process_reading e voltage current power_w s1 =
     (case record_sample e voltage current power_w s1 of
        (elapsed_total, s3) \<Rightarrow>
          then_do
            (db_call (log_data_point e (current_discharge_id s3) elapsed_total
                        voltage current power_w (db s3)) s3)
            (\<lambda>_ s4. advance_if_complete e voltage current s4))"

text \<open>
  The body of the \<^verbatim>\<open>try\<close> of \<^verbatim>\<open>run_update_loop\<close>. Its value says whether the function
  returned from inside the body (\<open>True\<close>) or ran to the end of it.
\<close>

definition update_loop_body :: "env \<Rightarrow> bool prog" where
  "update_loop_body e s =
     then_do (read_measurements e s) (\<lambda>reading s1.
       case reading of
         None \<Rightarrow>
           if \<not> test_mode s1 then
             (Return True, (logged Failed_fetch s1)\<lparr>update_loop_jobs := update_loop_jobs s1 + 1\<rparr>)
           else
             then_do (stop_discharge e False (logged Simulation_failed s1))
               (\<lambda>_ s2. (Return True, s2))
       | Some (voltage, current, power_w) \<Rightarrow> process_reading e voltage current power_w s1)"

definition run_update_loop :: "env \<Rightarrow> unit prog" where
  "run_update_loop e s =
     (if \<not> running s then (Return (), s)
      else
        then_do
          (if connected s \<and> \<not> paused s then
             (case update_loop_body e s of
                (Raise x, s1) \<Rightarrow> (Return False, logged (Update_loop_error x) s1)
              | (Return returned, s1) \<Rightarrow> (Return returned, s1))
           else if \<not> connected s \<and> \<not> test_mode s then
             then_do (handle_connection_loss e s) (\<lambda>_ s1. (Return False, s1))
           else (Return False, s))
          (\<lambda>returned s2.
             if returned then (Return (), s2)
             else if running s2 then (Return (), s2\<lparr>update_loop_jobs := update_loop_jobs s2 + 1\<rparr>)
             else (Return (), s2)))"

subsection \<open>Resuming after a reconnect\<close>

definition resume_after_reconnect :: "env \<Rightarrow> unit prog" where
  "resume_after_reconnect e s =
     (if \<not> resume_available s \<or> \<not> connected s then (Return (), s)
      else if running s then (Return (), s)
      else if \<not> ask_resume e then (Return (), s\<lparr>resume_available := False\<rparr>)
      else
        let s1 = s\<lparr>running := True, paused := False\<rparr>;
            s2 = (if start_time s1 = None
                  then s1\<lparr>start_time := Some (time_resume e), last_time := Some (time_resume e)\<rparr>
                  else s1) in
        then_do (apply_profile_step e s2) (\<lambda>_ s3.
        then_do (scpi_command e ''INPut:STATe 1'' s3) (\<lambda>ok s4.
          if \<not> ok then (Return (), s4\<lparr>running := False\<rparr>)
          else
            then_do (run_update_loop e s4)
              (\<lambda>_ s5. (Return (), s5\<lparr>resume_available := False\<rparr>)))))"

subsection \<open>A concrete state and environment\<close>

text \<open>
  The attributes as \<^verbatim>\<open>__init__\<close> sets them from \<^verbatim>\<open>DEFAULT_CONFIG\<close>, before it connects,
  with an empty database; and an environment in which everything works: the socket
  sends and replies, the database writes, the operator confirms.
\<close>

definition init_app :: app where
  "init_app =
     \<lparr>test_mode = False, auto_reconnect = True, test_mode_initial_voltage = 400,
      test_mode_cv_current_start = 5, test_mode_cv_current_decay = 0.05,
      connected = False, sock = False, running = False, paused = False,
      current_profile_data = [], current_step = 0, discharge_comment = [],
      current_discharge_id = - 1, energy_discharged = 0, start_time = None, last_time = None,
      data_x = [], data_voltage = [], data_current = [], data_power = [],
      sim_voltage = 400, sim_current = 0, sim_power = 0, sim_resistance_factor = 0.01,
      sim_cv_current = 5, resume_available = False, reconnect_job = False,
      update_loop_jobs = 0,
      db = \<lparr>discharges = [], discharges_seq = 0, data_points = [], data_points_seq = 0\<rparr>,
      issued = [], wire = [], certificates = [], log = []\<rparr>"

definition good_env :: env where
  "good_env =
     \<lparr>db_connect_ok = True, db_execute_ok = True, datetime_now = 1000,
      send_ok = (\<lambda>_. True),
      query_reply = (\<lambda>q. if q = ''MEASure:VOLTage?'' then Some ''350.5 V''
                          else if q = ''MEASure:CURRent?'' then Some ''10.0 A''
                          else if q = ''MEASure:POWer?'' then Some ''1000 W''
                          else Some ''NGI,N69200,0,1.0''),
      socket_connect_ok = True, time_now = 101, time_resume = 100,
      random1 = 0.01, random2 = 0.02, ask_comment = Some ''ok'', ask_resume = True,
      format_3f = (\<lambda>_. ''0.000''), py_str = (\<lambda>_. ''10.0'')\<rparr>"

text \<open>The first step of the profile "Default CC" of \<^verbatim>\<open>load_profiles\<close>.\<close>

definition cc_step :: step where
  "cc_step =
     [''type'' \<mapsto> JStr ''CC'', ''value'' \<mapsto> JNum 10,
      ''stop_condition_type'' \<mapsto> JStr ''voltage'', ''stop_condition_value'' \<mapsto> JNum 350]"

text \<open>A live run of that step, one second after its start, with session 1 open.\<close>

definition running_app :: app where
  "running_app =
     init_app\<lparr>connected := True, sock := True, running := True,
              current_profile_data := [cc_step], current_discharge_id := 1,
              start_time := Some 100, last_time := Some 100,
              db := \<lparr>discharges =
                       [\<lparr>row_id = 1, row_registration_number = ''AB123'',
                         row_profile_name = ''Default CC'', row_start_time = 900,
                         row_end_time = None, row_total_energy_discharged = None,
                         row_discharge_comment = None, row_mode = ''Real''\<rparr>],
                     discharges_seq = 1, data_points = [], data_points_seq = 0\<rparr>\<rparr>"

text \<open>Two legacy steps, as an old profile file has them.\<close>

definition legacy_cv_step :: step where
  "legacy_cv_step = [''type'' \<mapsto> JStr ''cv'', ''value'' \<mapsto> JNum 380, ''stop_voltage'' \<mapsto> JNum 300]"

definition legacy_cc_step :: step where
  "legacy_cc_step = [''type'' \<mapsto> JStr ''CC'', ''value'' \<mapsto> JNum 5, ''stop_voltage'' \<mapsto> JNum 300]"

subsection \<open>What the controller's operations leave alone\<close>

text \<open>
  \<open>frame s s'\<close>: from \<open>s\<close> to \<open>s'\<close> the mode, the configuration, the profile, the step
  index, the accumulated energy, the time stamps, the samples and the simulated
  voltage, current and power are the same; the log has only grown; and neither
  \<open>running\<close> nor \<open>paused\<close> has become true.
\<close>

definition kept :: "app \<Rightarrow>
    (bool \<times> bool \<times> real \<times> real \<times> real) \<times> (step list \<times> nat \<times> real \<times> real option \<times> real option)
    \<times> (real list \<times> real list \<times> real list \<times> real list) \<times> (real \<times> real \<times> real \<times> real \<times> nat)" where
  "kept s =
     ((test_mode s, auto_reconnect s, test_mode_initial_voltage s,
       test_mode_cv_current_start s, test_mode_cv_current_decay s),
      (current_profile_data s, current_step s, energy_discharged s, start_time s, last_time s),
      (data_x s, data_voltage s, data_current s, data_power s),
      (sim_voltage s, sim_current s, sim_power s, sim_resistance_factor s, update_loop_jobs s))"

definition frame :: "app \<Rightarrow> app \<Rightarrow> bool" where
  "frame s s' =
     (kept s' = kept s \<and> prefix (log s) (log s')
      \<and> (running s \<or> \<not> running s') \<and> (paused s \<or> \<not> paused s'))"

text \<open>The run of \<open>running_app\<close> after a connection loss, and after the reconnect.\<close>

definition disconnected_app :: app where
  "disconnected_app =
     running_app\<lparr>connected := False, sock := False, running := False,
                 current_discharge_id := - 1, reconnect_job := True\<rparr>"

definition resumable_app :: app where
  "resumable_app =
     running_app\<lparr>running := False, current_discharge_id := - 1, resume_available := True\<rparr>"

text \<open>
  \<open>quiet s s'\<close>: from \<open>s\<close> to \<open>s'\<close> no report has been asked for, and the commands
  issued and the lines sent have only grown.
\<close>

definition quiet :: "app \<Rightarrow> app \<Rightarrow> bool" where
  "quiet s s' =
     (certificates s' = certificates s \<and> prefix (issued s) (issued s')
      \<and> prefix (wire s) (wire s'))"

text \<open>A run whose only step has completed, with one sample; and a socket that fails.\<close>

definition completed_app :: app where
  "completed_app = running_app\<lparr>current_step := 1, data_x := [1], data_voltage := [349],
                                data_current := [10], data_power := [3490]\<rparr>"

definition dead_socket_env :: env where
  "dead_socket_env = good_env\<lparr>send_ok := (\<lambda>_. False), query_reply := (\<lambda>_. None)\<rparr>"

text \<open>
  \<open>acquired s s1\<close>: from \<open>s\<close> to \<open>s1\<close> only the lines sent, the log and the
  simulated cell have changed, and the log has only grown.
\<close>

definition acquired :: "app \<Rightarrow> app \<Rightarrow> bool" where
  "acquired s s1 =
     (s1 = s\<lparr>wire := wire s1, log := log s1, sim_voltage := sim_voltage s1,
             sim_current := sim_current s1, sim_power := sim_power s1,
             sim_cv_current := sim_cv_current s1\<rparr>
      \<and> prefix (log s) (log s1))"


definition late_env :: env where
  "late_env = good_env\<lparr>time_now := 110\<rparr>"


fun run_ticks :: "env list \<Rightarrow> app \<Rightarrow> app" where
  "run_ticks [] s = s"
| "run_ticks (e # es) s = run_ticks es (snd (run_update_loop e s))"

definition acquired_power :: "env \<Rightarrow> app \<Rightarrow> real option" where
  "acquired_power e s =
     (if running s \<and> connected s \<and> \<not> paused s then
        (case fst (read_measurements e s) of
           Return (Some (v, c, p)) \<Rightarrow> Some p
         | _ \<Rightarrow> None)
      else None)"

fun nonneg_powers :: "env list \<Rightarrow> app \<Rightarrow> bool" where
  "nonneg_powers [] s = True"
| "nonneg_powers (e # es) s =
     ((case acquired_power e s of Some p \<Rightarrow> 0 \<le> p | None \<Rightarrow> True)
      \<and> nonneg_powers es (snd (run_update_loop e s)))"

definition negative_power_env :: env where
  "negative_power_env =
     good_env\<lparr>query_reply := (\<lambda>q. if q = ''MEASure:POWer?'' then Some ''-1000 W''
                                 else query_reply good_env q)\<rparr>"

section \<open>Properties\<close>

subsection \<open>Persistence\<close>




subsection \<open>Migration\<close>

lemma py_upper_lits:
  "py_upper ''CV'' = ''CV''" "py_upper ''cv'' = ''CV''" "py_upper ''CC'' = ''CC''"
  "py_upper ''CP'' = ''CP''" "py_upper ''V'' = ''V''" "py_upper ''A'' = ''A''" "py_upper ''W'' = ''W''"
  by (simp_all add: py_upper_def py_upper_char_def)

lemma migrate_migrated:
  "st ''stop_condition_type'' \<noteq> None \<Longrightarrow> migrate_profile_step st = Return (st, [])"
  by (auto simp: migrate_profile_step_def)

lemma migrate_legacy:
  assumes "jval_upper (step_get st ''type'' (JStr ''CC'')) = Inr step_type"
      and "st ''stop_condition_type'' = None"
  shows "\<exists>msgs. migrate_profile_step st =
               Return ((st(''stop_voltage'' := None))
                         (''stop_condition_type'' \<mapsto>
                            (if step_type = ''CV'' then JStr ''current'' else JStr ''voltage''),
                          ''stop_condition_value'' \<mapsto>
                            (if step_type = ''CV'' then JNum 0.1
                             else case st ''stop_voltage'' of Some v \<Rightarrow> v | None \<Rightarrow> JNum 0)),
                       msgs)"
proof (cases "st ''stop_voltage''")
  case None
  then have "st(''stop_voltage'' := None) = st" by (simp add: fun_eq_iff)
  with None assms show ?thesis by (simp add: migrate_profile_step_def)
next
  case (Some v)
  with assms show ?thesis by (simp add: migrate_profile_step_def Let_def)
qed

lemma migrate_result_migrated:
  "migrate_profile_step st = Return (st', msgs) \<Longrightarrow> st' ''stop_condition_type'' \<noteq> None"
  by (auto simp: migrate_profile_step_def Let_def split: option.splits sum.splits if_splits)

text \<open>
  C6. Step migration is deterministic (it is a function of the step) and idempotent.
  For a step whose type entry is absent (then \<open>CC\<close>) or a string, with \<open>step_type\<close> its
  upper-cased type: a legacy step, one without \<open>stop_condition_type\<close>, gets
  \<open>current\<close> with \<open>0.1\<close> when the type is \<open>CV\<close>, and otherwise \<open>voltage\<close> with its
  original \<open>stop_voltage\<close> value, or \<open>0.0\<close> if it has none; the key \<open>stop_voltage\<close>
  is removed and every other key is kept. A step that has \<open>stop_condition_type\<close>
  comes back unchanged, so migrating the result of a migration changes nothing.
\<close>

theorem C6_migration:
  assumes "jval_upper (step_get st ''type'' (JStr ''CC'')) = Inr step_type"
  shows "(st ''stop_condition_type'' = None \<longrightarrow>
            (\<exists>msgs. migrate_profile_step st =
               Return ((st(''stop_voltage'' := None))
                         (''stop_condition_type'' \<mapsto>
                            (if step_type = ''CV'' then JStr ''current'' else JStr ''voltage''),
                          ''stop_condition_value'' \<mapsto>
                            (if step_type = ''CV'' then JNum 0.1
                             else case st ''stop_voltage'' of Some v \<Rightarrow> v | None \<Rightarrow> JNum 0)),
                       msgs)))
       \<and> (st ''stop_condition_type'' \<noteq> None \<longrightarrow> migrate_profile_step st = Return (st, []))
       \<and> (\<forall>st' msgs. migrate_profile_step st = Return (st', msgs) \<longrightarrow>
             migrate_profile_step st' = Return (st', []))"
  using migrate_legacy [OF assms] migrate_migrated [of st] migrate_result_migrated [of st]
        migrate_migrated
  by blast

theorem C6_migration_witness:
  "(\<exists>msgs. migrate_profile_step legacy_cv_step =
      Return (legacy_cv_step(''stop_voltage'' := None,
                ''stop_condition_type'' \<mapsto> JStr ''current'',
                ''stop_condition_value'' \<mapsto> JNum 0.1), msgs))
   \<and> migrate_profile_step cc_step = Return (cc_step, [])"
proof -
  have t1: "jval_upper (step_get legacy_cv_step ''type'' (JStr ''CC'')) = Inr ''CV''"
    by (simp add: legacy_cv_step_def step_get_def jval_upper_def py_upper_lits)
  have n1: "legacy_cv_step ''stop_condition_type'' = None"
    by (simp add: legacy_cv_step_def)
  have t2: "jval_upper (step_get cc_step ''type'' (JStr ''CC'')) = Inr ''CC''"
    by (simp add: cc_step_def step_get_def jval_upper_def py_upper_lits)
  have n2: "cc_step ''stop_condition_type'' \<noteq> None"
    by (simp add: cc_step_def)
  from C6_migration [OF t1] n1 C6_migration [OF t2] n2 show ?thesis
    by simp
qed

subsection \<open>Sequencing and the frame of the operations\<close>

lemma then_do_simps [simp]:
  "then_do (Return a, s) f = f a s"
  "then_do (Raise x, s) f = (Raise x, s)"
  by (simp_all add: then_do_def)

lemma snd_then_do_const [simp]: "snd (then_do m (\<lambda>_ s1. (r, s1))) = snd m"
  by (cases m; cases "fst m") (auto simp: then_do_def)

lemma snd_db_call [simp]: "snd (db_call r s) = s\<lparr>db := fst (snd r), log := log s @ snd (snd r)\<rparr>"
  by (simp add: db_call_def split: prod.splits)

lemma fst_db_call [simp]: "fst (db_call r s) = fst r"
  by (simp add: db_call_def split: prod.splits)

lemma kept_upd [simp]:
  "kept (s\<lparr>connected := b\<rparr>) = kept s"
  "kept (s\<lparr>sock := b\<rparr>) = kept s"
  "kept (s\<lparr>running := b\<rparr>) = kept s"
  "kept (s\<lparr>paused := b\<rparr>) = kept s"
  "kept (s\<lparr>db := d\<rparr>) = kept s"
  "kept (s\<lparr>current_discharge_id := i\<rparr>) = kept s"
  "kept (s\<lparr>reconnect_job := b\<rparr>) = kept s"
  "kept (s\<lparr>issued := cs\<rparr>) = kept s"
  "kept (s\<lparr>wire := cs\<rparr>) = kept s"
  "kept (s\<lparr>discharge_comment := c\<rparr>) = kept s"
  "kept (s\<lparr>certificates := is\<rparr>) = kept s"
  "kept (s\<lparr>sim_cv_current := x\<rparr>) = kept s"
  "kept (s\<lparr>resume_available := b\<rparr>) = kept s"
  "kept (s\<lparr>log := l\<rparr>) = kept s"
  by (simp_all add: kept_def)

lemma frame_refl [simp]: "frame s s"
  by (simp add: frame_def)

lemma frame_trans: "frame s s1 \<Longrightarrow> frame s1 s2 \<Longrightarrow> frame s s2"
  by (auto simp: frame_def)

lemma frame_then_do:
  "frame s (snd m) \<Longrightarrow> (\<And>a s'. frame s' (snd (f a s'))) \<Longrightarrow> frame s (snd (then_do m f))"
  by (cases m; cases "fst m") (auto intro: frame_trans)

lemma frame_handle_connection_loss: "frame s (snd (handle_connection_loss e s))"
  by (auto simp: handle_connection_loss_def Let_def logged_def then_do_def db_call_def
        frame_def schedule_reconnect_def split: prod.splits outcome.splits)

lemma frame_logged: "frame s (logged m s)"
  by (simp add: frame_def logged_def)

lemma frame_after_logged: "frame s (snd (handle_connection_loss e (logged m s)))"
  using frame_handle_connection_loss frame_logged frame_trans by blast

lemma frame_scpi_command: "frame s (snd (scpi_command e c s))"
proof -
  let ?s = "s\<lparr>issued := issued s @ [c]\<rparr>"
  have "frame s ?s" by (simp add: frame_def)
  moreover have "frame ?s (snd (scpi_command e c s))"
    unfolding scpi_command_def Let_def
    by (simp add: frame_after_logged frame_logged) (simp add: frame_def)
  ultimately show ?thesis by (rule frame_trans)
qed

lemma frame_scpi_query: "frame s (snd (scpi_query e q s))"
  unfolding scpi_query_def Let_def
  by (simp add: frame_after_logged frame_logged split: option.splits)
     (simp add: frame_def logged_def)


lemma frame_stop_discharge: "frame s (snd (stop_discharge e g s))"
proof -
  let ?s = "s\<lparr>running := False, paused := False\<rparr>"
  have a: "frame s ?s" by (simp add: frame_def)
  have b: "\<And>s'. frame s' (snd (then_do (scpi_command e ''INPut:STATe 0'' s')
             (\<lambda>ok s1. (Return (), if \<not> ok \<and> \<not> test_mode s1 then logged Failed_stop_command s1 else s1))))"
    by (rule frame_then_do) (auto simp: frame_scpi_command frame_logged)
  have d: "\<And>s' c. frame s' (s'\<lparr>discharge_comment := c\<rparr>)" by (simp add: frame_def)
  show ?thesis
    unfolding stop_discharge_def Let_def
    apply (rule frame_then_do)
     apply (auto intro: frame_trans [OF a b] frame_trans [OF a frame_logged])[1]
    apply (rule frame_trans [OF d])
    apply (rule frame_then_do)
     apply (auto simp: frame_def)[1]
    apply (auto simp: frame_def create_discharge_certificate_def logged_def)
    done
qed

lemma frame_after_stop: "frame s s' \<Longrightarrow> frame s (snd (stop_discharge e g s'))"
  using frame_stop_discharge frame_trans by blast

lemma frame_apply_profile_step: "frame s (snd (apply_profile_step e s))"
proof -
  have a: "\<And>s' x. frame s' (if x then s'\<lparr>sim_cv_current := test_mode_cv_current_start s'\<rparr> else s')"
    by (simp add: frame_def)
  show ?thesis
    unfolding apply_profile_step_def Let_def
    apply (simp add: frame_stop_discharge frame_after_stop frame_logged split: sum.splits option.splits prod.splits)
    apply (intro allI impI conjI)
    apply (rule frame_then_do, rule frame_scpi_command)
    apply (rule frame_then_do, rule frame_scpi_command)
    apply (simp add: check_step_commands_def frame_after_stop frame_logged a)
    done
qed

subsection \<open>Connection loss\<close>

lemma finish_discharge_ok:
  "db_connect_ok e \<Longrightarrow> 0 \<le> i \<Longrightarrow>
   finish_discharge e i en c d =
     (Return (),
      (if db_execute_ok e then d\<lparr>discharges := map (finish_row e i en c) (discharges d)\<rparr> else d),
      (if db_execute_ok e then [] else [Failed_to_finish_discharge]))"
  by (simp add: finish_discharge_def get_connection_def)

lemma schedule_reconnect_fields [simp]:
  "running (schedule_reconnect s) = running s"
  "connected (schedule_reconnect s) = connected s"
  "db (schedule_reconnect s) = db s"
  "current_discharge_id (schedule_reconnect s) = current_discharge_id s"
  "certificates (schedule_reconnect s) = certificates s"
  "resume_available (schedule_reconnect s) = resume_available s"
  "reconnect_job (schedule_reconnect s) = (reconnect_job s \<or> (\<not> test_mode s \<and> auto_reconnect s))"
  by (auto simp: schedule_reconnect_def)

lemma handle_connection_loss_idle:
  "\<not> running s \<Longrightarrow>
     handle_connection_loss e s =
       (Return (),
        if test_mode s then s
        else schedule_reconnect ((logged Handling_connection_loss s)\<lparr>connected := False, sock := False\<rparr>))"
  by (simp add: handle_connection_loss_def Let_def logged_def)

lemma scpi_command_idle:
  assumes "\<not> running s"
  shows "db (snd (scpi_command e c s)) = db s"
    and "certificates (snd (scpi_command e c s)) = certificates s"
    and "current_discharge_id (snd (scpi_command e c s)) = current_discharge_id s"
    and "\<not> running (snd (scpi_command e c s))"
    and "\<exists>ok. fst (scpi_command e c s) = Return ok"
  using assms
  by (auto simp: scpi_command_def Let_def logged_def handle_connection_loss_idle)


lemma stop_discharge_idle:
  assumes "\<not> running s" "current_discharge_id s = - 1"
  shows "db (snd (stop_discharge e g s)) = db s"
    and "certificates (snd (stop_discharge e g s)) = certificates s"
    and "\<not> running (snd (stop_discharge e g s))"
proof -
  let ?s = "s\<lparr>running := False, paused := False\<rparr>"
  have idle: "\<not> running ?s" by simp
  obtain ok where ok: "fst (scpi_command e ''INPut:STATe 0'' ?s) = Return ok"
    using scpi_command_idle(5) [OF idle] by blast
  define s1 where "s1 = snd (scpi_command e ''INPut:STATe 0'' ?s)"
  have c: "scpi_command e ''INPut:STATe 0'' ?s = (Return ok, s1)"
    using ok by (simp add: s1_def prod_eq_iff)
  have f: "db s1 = db s" "certificates s1 = certificates s" "current_discharge_id s1 = - 1"
          "\<not> running s1"
    using scpi_command_idle(1-4) [OF idle, of e "''INPut:STATe 0''"] assms by (simp_all add: s1_def)
  show "db (snd (stop_discharge e g s)) = db s"
    and "certificates (snd (stop_discharge e g s)) = certificates s"
    and "\<not> running (snd (stop_discharge e g s))"
    using assms f
    by (simp_all add: stop_discharge_def Let_def c logged_def)
qed

lemma handle_connection_loss_running:
  assumes "running s" "\<not> test_mode s" "0 \<le> current_discharge_id s" "db_connect_ok e"
  shows "fst (handle_connection_loss e s) = Return ()"
    and "\<not> running (snd (handle_connection_loss e s))"
    and "\<not> connected (snd (handle_connection_loss e s))"
    and "current_discharge_id (snd (handle_connection_loss e s)) = - 1"
    and "certificates (snd (handle_connection_loss e s)) = certificates s"
    and "db (snd (handle_connection_loss e s)) =
           (if db_execute_ok e
            then (db s)\<lparr>discharges :=
                   map (finish_row e (current_discharge_id s) (energy_discharged s)
                          ''Connection Lost - Incomplete'') (discharges (db s))\<rparr>
            else db s)"
    and "reconnect_job (snd (handle_connection_loss e s)) = (auto_reconnect s \<or> reconnect_job s)"
  using assms
  by (auto simp: handle_connection_loss_def Let_def logged_def db_call_def finish_discharge_ok)

text \<open>
  C3 (as amended). If the connection is lost while a live discharge is running with a
  session open, and the database can be opened, then connection-loss handling returns
  normally and afterwards: \<open>running\<close> is false; \<open>finish_discharge\<close> has been applied
  exactly once, with the accumulated energy and the comment
  \<^verbatim>\<open>Connection Lost - Incomplete\<close> (its \<^verbatim>\<open>UPDATE\<close> sets the row of the session, unless
  SQLite rejects the statement, which is logged and changes nothing); the session id is
  reset to \<open>-1\<close>, so that a later \<open>stop_discharge\<close> neither finalizes the session again
  nor generates a report; no report is generated by the handling itself; and a
  reconnect attempt is pending exactly when auto-reconnect is enabled in the
  configuration or an attempt was pending already.
\<close>

theorem C3_connection_loss:
  assumes "running s" and "\<not> test_mode s" and "0 \<le> current_discharge_id s"
      and "db_connect_ok e"
  shows "fst (handle_connection_loss e s) = Return ()
       \<and> \<not> running (snd (handle_connection_loss e s))
       \<and> db (snd (handle_connection_loss e s)) =
           (if db_execute_ok e
            then (db s)\<lparr>discharges :=
                   map (finish_row e (current_discharge_id s) (energy_discharged s)
                          ''Connection Lost - Incomplete'') (discharges (db s))\<rparr>
            else db s)
       \<and> current_discharge_id (snd (handle_connection_loss e s)) = - 1
       \<and> (\<forall>e' g. db (snd (stop_discharge e' g (snd (handle_connection_loss e s))))
                   = db (snd (handle_connection_loss e s))
                \<and> certificates (snd (stop_discharge e' g (snd (handle_connection_loss e s))))
                   = certificates s)
       \<and> certificates (snd (handle_connection_loss e s)) = certificates s
       \<and> reconnect_job (snd (handle_connection_loss e s)) = (auto_reconnect s \<or> reconnect_job s)"
  using handle_connection_loss_running [OF assms]
        stop_discharge_idle(1,2) [of "snd (handle_connection_loss e s)"]
  by simp

theorem C3_connection_loss_witness:
  "discharges (db (snd (handle_connection_loss good_env running_app))) =
     [\<lparr>row_id = 1, row_registration_number = ''AB123'',
       row_profile_name = ''Default CC'', row_start_time = 900,
       row_end_time = Some 1000, row_total_energy_discharged = Some 0,
       row_discharge_comment = Some ''Connection Lost - Incomplete'', row_mode = ''Real''\<rparr>]
   \<and> \<not> running (snd (handle_connection_loss good_env running_app))
   \<and> certificates (snd (handle_connection_loss good_env running_app)) = []
   \<and> reconnect_job (snd (handle_connection_loss good_env running_app))"
proof -
  have h: "running running_app" "\<not> test_mode running_app" "0 \<le> current_discharge_id running_app"
          "db_connect_ok good_env"
    by (simp_all add: running_app_def init_app_def good_env_def)
  have v: "db_execute_ok good_env" "datetime_now good_env = 1000" "auto_reconnect running_app"
          "certificates running_app = []" "energy_discharged running_app = 0"
          "current_discharge_id running_app = 1"
          "discharges (db running_app) =
             [\<lparr>row_id = 1, row_registration_number = ''AB123'',
               row_profile_name = ''Default CC'', row_start_time = 900,
               row_end_time = None, row_total_energy_discharged = None,
               row_discharge_comment = None, row_mode = ''Real''\<rparr>]"
    by (simp_all add: running_app_def init_app_def good_env_def)
  from C3_connection_loss [OF h] show ?thesis
    by (simp add: v finish_row_def)
qed

text \<open>
  With auto-reconnect disabled in the configuration, no reconnect attempt is scheduled
  after the loss.
\<close>

theorem C3_counterexample:
  "running (running_app\<lparr>auto_reconnect := False\<rparr>)
   \<and> \<not> test_mode (running_app\<lparr>auto_reconnect := False\<rparr>)
   \<and> \<not> reconnect_job (snd (handle_connection_loss good_env (running_app\<lparr>auto_reconnect := False\<rparr>)))"
proof -
  have h: "running (running_app\<lparr>auto_reconnect := False\<rparr>)"
          "\<not> test_mode (running_app\<lparr>auto_reconnect := False\<rparr>)"
          "0 \<le> current_discharge_id (running_app\<lparr>auto_reconnect := False\<rparr>)"
          "db_connect_ok good_env"
          "\<not> reconnect_job (running_app\<lparr>auto_reconnect := False\<rparr>)"
    by (simp_all add: running_app_def init_app_def good_env_def)
  from handle_connection_loss_running(7) [OF h(1-4)] h show ?thesis by simp
qed

subsection \<open>Evaluation on concrete inputs\<close>

lemmas float_defs = py_float_def py_exponent_def split_sign_def is_exp_marker_def is_digit_def
  digits_val_def digit_val_def

lemmas parse_defs = parse_measurement_def py_strip_def py_isspace_def py_upper_def
  py_upper_char_def py_startswith_def allowed_char_def

lemma parse_examples:
  "parse_measurement (Some ''350.5 V'') ''V'' = (Some 350.5, [])"
  "parse_measurement (Some ''10.0 A'') ''A'' = (Some 10, [])"
  "parse_measurement (Some ''1000 W'') ''W'' = (Some 1000, [])"
  "parse_measurement (Some ''-1000 W'') ''W'' = (Some (- 1000), [])"
  "parse_measurement (Some ''abc'') ''V'' = (None, [Could_not_parse ''abc'' ''V''])"
  "parse_measurement (Some ''1V2'') ''V'' = (Some 12, [])"
  "parse_measurement (Some ''-1E-5'') ''V'' = (None, [Could_not_parse ''-1E-5'' ''V''])"
  by (simp_all add: parse_defs float_defs)

lemma frame_connect_instrument: "frame s (snd (connect_instrument e s))"
  by (auto simp: connect_instrument_def cancel_reconnect_def logged_def schedule_reconnect_def
        intro!: frame_trans [OF _ frame_scpi_query])
     (simp_all add: frame_def)


lemma frame_reconnect_tick: "frame s (reconnect_tick e s)"
proof -
  let ?s = "s\<lparr>reconnect_job := False\<rparr>"
  have a: "frame s ?s" by (simp add: frame_def)
  have b: "frame ?s (snd (connect_instrument e ?s))" by (rule frame_connect_instrument)
  have c: "frame s (snd (connect_instrument e ?s))" by (rule frame_trans [OF a b])
  have d: "\<And>s'. frame s' (s'\<lparr>resume_available := True\<rparr>)" "\<And>s'. frame s' (schedule_reconnect s')"
    by (simp_all add: frame_def schedule_reconnect_def)
  show ?thesis
    unfolding reconnect_tick_def Let_def
    using a c d
    by (auto split: prod.splits bool.splits intro: frame_trans)
qed

lemma fst_connect_instrument:
  "fst (connect_instrument e s) = (test_mode s \<or> (connected s \<and> sock s) \<or> socket_connect_ok e)"
  by (simp add: connect_instrument_def)

lemma reconnect_tick_resume_available:
  assumes "\<not> connected s" "test_mode s \<or> socket_connect_ok e"
      and "current_step s < length (current_profile_data s)"
  shows "resume_available (reconnect_tick e s)"
proof -
  let ?s = "s\<lparr>reconnect_job := False\<rparr>"
  obtain s1 where c: "connect_instrument e ?s = (True, s1)"
    using assms(2) fst_connect_instrument [of e ?s] by (cases "connect_instrument e ?s") auto
  have "frame ?s s1" using frame_connect_instrument [of ?s e] c by simp
  then have "current_step s1 = current_step s" "current_profile_data s1 = current_profile_data s"
    by (simp_all add: frame_def kept_def)
  with assms c show ?thesis
    by (auto simp: reconnect_tick_def Let_def)
qed

lemma resume_needs_confirmation:
  assumes "\<not> running s" "running (snd (resume_after_reconnect e s))"
  shows "ask_resume e \<and> resume_available s \<and> connected s"
  using assms
  by (cases "ask_resume e"; cases "resume_available s"; cases "connected s")
     (simp_all add: resume_after_reconnect_def)

subsection \<open>Reconnect and resume\<close>

lemma jval_upper_cc: "jval_upper (step_get cc_step ''type'' (JStr ''CC'')) = Inr ''CC''"
  by (simp add: cc_step_def step_get_def jval_upper_def py_upper_lits)

lemma strip_lits:
  "py_strip ''INPut:FUNCtion CC'' = ''INPut:FUNCtion CC''"
  "py_strip ''INPut:STATe 1'' = ''INPut:STATe 1''"
  "py_strip ''INPut:STATe 0'' = ''INPut:STATe 0''"
  "py_strip ''MEASure:VOLTage?'' = ''MEASure:VOLTage?''"
  "py_strip ''MEASure:CURRent?'' = ''MEASure:CURRent?''"
  "py_strip ''MEASure:POWer?'' = ''MEASure:POWer?''"
  "py_strip ''350.5 V'' = ''350.5 V''"
  "py_strip ''10.0 A'' = ''10.0 A''"
  "py_strip ''1000 W'' = ''1000 W''"
  by (simp_all add: py_strip_def py_isspace_def)

lemmas eval_defs = apply_profile_step_def check_step_commands_def Let_def step_commands_def
  scpi_command_def
  scpi_query_def step_get_def run_update_loop_def update_loop_body_def read_measurements_def
  record_sample_def advance_if_complete_def process_reading_def
  fetch_measurements_def integrate_energy_def truthy_def stop_condition_met_def py_le_def
  db_call_def log_data_point_def get_connection_def logged_def py_startswith_def
  py_lower_def py_lower_char_def

lemma resume_runs: "running (snd (resume_after_reconnect good_env resumable_app))"
  by (simp add: resume_after_reconnect_def resumable_app_def running_app_def init_app_def good_env_def
      eval_defs jval_upper_def py_upper_lits strip_lits parse_examples cc_step_def)

text \<open>
  C9. The reconnect callback never re-enters the running state: if the controller is
  not running before it, it is not running after it. When the socket connects and the
  step index lies within the profile, the callback sets \<open>resume_available\<close>. And
  \<open>_resume_after_reconnect\<close> makes a stopped controller run again only if the operator
  confirmed the dialog, with \<open>resume_available\<close> set and the instrument connected.
\<close>

theorem C9_no_auto_resume:
  "(\<not> running s \<longrightarrow> \<not> running (reconnect_tick e s))
   \<and> (\<not> connected s \<and> socket_connect_ok e \<and> current_step s < length (current_profile_data s)
        \<longrightarrow> resume_available (reconnect_tick e s))
   \<and> (\<not> running s \<and> running (snd (resume_after_reconnect e' s))
        \<longrightarrow> ask_resume e' \<and> resume_available s \<and> connected s)"
  using frame_reconnect_tick [of s e] reconnect_tick_resume_available [of s e]
        resume_needs_confirmation [of s e']
  by (auto simp: frame_def)

theorem C9_no_auto_resume_witness:
  "\<not> running (reconnect_tick good_env disconnected_app)
   \<and> resume_available (reconnect_tick good_env disconnected_app)
   \<and> running (snd (resume_after_reconnect good_env resumable_app))
   \<and> ask_resume good_env \<and> resume_available resumable_app \<and> connected resumable_app"
proof -
  have a: "\<not> running disconnected_app" "\<not> connected disconnected_app"
          "socket_connect_ok good_env"
          "current_step disconnected_app < length (current_profile_data disconnected_app)"
    by (simp_all add: disconnected_app_def running_app_def init_app_def good_env_def)
  have b: "\<not> running resumable_app"
    by (simp add: resumable_app_def)
  from C9_no_auto_resume [of disconnected_app good_env good_env] a
       C9_no_auto_resume [of resumable_app good_env good_env] b resume_runs
  show ?thesis by simp
qed

subsection \<open>Applying a step\<close>

lemma handle_connection_loss_fields:
  "certificates (snd (handle_connection_loss e s)) = certificates s"
  "issued (snd (handle_connection_loss e s)) = issued s"
  "wire (snd (handle_connection_loss e s)) = wire s"
  "test_mode s \<or> \<not> running (snd (handle_connection_loss e s))"
  "test_mode s \<or> \<not> connected (snd (handle_connection_loss e s))"
  "current_discharge_id (snd (handle_connection_loss e s)) = current_discharge_id s
     \<or> current_discharge_id (snd (handle_connection_loss e s)) = - 1"
  by (auto simp: handle_connection_loss_def Let_def logged_def then_do_def db_call_def
        schedule_reconnect_def split: prod.splits outcome.splits)

lemma handle_connection_loss_returns:
  "db_connect_ok e \<or> current_discharge_id s < 0 \<Longrightarrow> fst (handle_connection_loss e s) = Return ()"
  by (auto simp: handle_connection_loss_def Let_def logged_def db_call_def
        finish_discharge_def get_connection_def)

lemma scpi_command_ok:
  "\<not> test_mode s \<Longrightarrow> connected s \<Longrightarrow> sock s \<Longrightarrow> send_ok e (py_strip c) \<Longrightarrow>
     scpi_command e c s = (Return True, s\<lparr>issued := issued s @ [c], wire := wire s @ [py_strip c]\<rparr>)"
  by (simp add: scpi_command_def Let_def)

lemma scpi_command_test_mode:
  "test_mode s \<Longrightarrow> scpi_command e c s = (Return True, s\<lparr>issued := issued s @ [c]\<rparr>)"
  by (simp add: scpi_command_def Let_def)

lemma scpi_command_fail:
  assumes "\<not> test_mode s" "\<not> (connected s \<and> sock s \<and> send_ok e (py_strip c))"
  shows "fst (scpi_command e c s) \<noteq> Return True"
    and "\<not> (connected (snd (scpi_command e c s)) \<and> sock (snd (scpi_command e c s)))"
  using assms handle_connection_loss_fields(5) [where e = e and s = "logged (Socket_error_sending_command c) (s\<lparr>issued := issued s @ [c]\<rparr>)"]
  by (auto simp: scpi_command_def Let_def logged_def then_do_def split: prod.splits outcome.splits)

lemma scpi_command_fields:
  "certificates (snd (scpi_command e c s)) = certificates s"
  "issued (snd (scpi_command e c s)) = issued s @ [c]"
  "current_discharge_id (snd (scpi_command e c s)) = current_discharge_id s
     \<or> current_discharge_id (snd (scpi_command e c s)) = - 1"
  "prefix (wire s) (wire (snd (scpi_command e c s)))"
  using handle_connection_loss_fields [where e = e and s = "logged (Socket_error_sending_command c) (s\<lparr>issued := issued s @ [c]\<rparr>)"]
  by (auto simp: scpi_command_def Let_def logged_def)

lemma scpi_command_returns:
  "db_connect_ok e \<or> current_discharge_id s < 0 \<Longrightarrow> \<exists>ok. fst (scpi_command e c s) = Return ok"
  using handle_connection_loss_returns [where e = e and s = "logged (Socket_error_sending_command c) (s\<lparr>issued := issued s @ [c]\<rparr>)"]
  by (auto simp: scpi_command_def Let_def logged_def then_do_def split: prod.splits outcome.splits)

lemma scpi_command_raise_stops:
  "fst (scpi_command e c s) = Raise x \<Longrightarrow> \<not> running (snd (scpi_command e c s))"
  using handle_connection_loss_fields(4) [where e = e and s = "logged (Socket_error_sending_command c) (s\<lparr>issued := issued s @ [c]\<rparr>)"]
  by (auto simp: scpi_command_def Let_def logged_def then_do_def split: prod.splits outcome.splits if_splits)


lemma frame_not_running: "frame s s' \<Longrightarrow> \<not> running s \<Longrightarrow> \<not> running s'"
  by (auto simp: frame_def)

lemma quiet_refl [simp]: "quiet s s"
  by (simp add: quiet_def)

lemma quiet_trans: "quiet s s1 \<Longrightarrow> quiet s1 s2 \<Longrightarrow> quiet s s2"
  by (auto simp: quiet_def)

lemma quiet_then_do:
  "quiet s (snd m) \<Longrightarrow> (\<And>a s'. quiet s' (snd (f a s'))) \<Longrightarrow> quiet s (snd (then_do m f))"
  by (cases m; cases "fst m") (auto intro: quiet_trans)

lemma quiet_upd [simp]:
  "quiet s (s'\<lparr>connected := b\<rparr>) = quiet s s'"
  "quiet s (s'\<lparr>sock := b\<rparr>) = quiet s s'"
  "quiet s (s'\<lparr>running := b\<rparr>) = quiet s s'"
  "quiet s (s'\<lparr>paused := b\<rparr>) = quiet s s'"
  "quiet s (s'\<lparr>db := d\<rparr>) = quiet s s'"
  "quiet s (s'\<lparr>current_discharge_id := i\<rparr>) = quiet s s'"
  "quiet s (s'\<lparr>reconnect_job := b\<rparr>) = quiet s s'"
  "quiet s (s'\<lparr>discharge_comment := c\<rparr>) = quiet s s'"
  "quiet s (s'\<lparr>sim_cv_current := x\<rparr>) = quiet s s'"
  "quiet s (s'\<lparr>resume_available := b\<rparr>) = quiet s s'"
  "quiet s (s'\<lparr>log := l\<rparr>) = quiet s s'"
  "quiet s (logged m s') = quiet s s'"
  "quiet s (schedule_reconnect s') = quiet s s'"
  by (simp_all add: quiet_def logged_def schedule_reconnect_def)

lemma quiet_handle_connection_loss: "quiet s (snd (handle_connection_loss e s))"
  unfolding handle_connection_loss_def Let_def
  by (auto intro!: quiet_then_do)

lemma quiet_after: "quiet s s' \<Longrightarrow> quiet s (snd (handle_connection_loss e s'))"
  using quiet_handle_connection_loss quiet_trans by blast

lemma quiet_scpi_command: "quiet s (snd (scpi_command e c s))"
proof -
  let ?s = "s\<lparr>issued := issued s @ [c]\<rparr>"
  have "quiet s ?s" by (simp add: quiet_def)
  moreover have "quiet ?s (snd (scpi_command e c s))"
    unfolding scpi_command_def Let_def
    by (simp add: quiet_after) (simp add: quiet_def)
  ultimately show ?thesis by (rule quiet_trans)
qed

lemma quiet_scpi_query: "quiet s (snd (scpi_query e q s))"
  unfolding scpi_query_def Let_def
  by (simp add: quiet_after split: option.splits) (simp add: quiet_def)

lemma stop_discharge_from_stopped:
  "frame (s\<lparr>running := False, paused := False\<rparr>) (snd (stop_discharge e g s))"
proof -
  have b: "\<And>s'. frame s' (snd (then_do (scpi_command e ''INPut:STATe 0'' s')
             (\<lambda>ok s1. (Return (), if \<not> ok \<and> \<not> test_mode s1 then logged Failed_stop_command s1 else s1))))"
    by (rule frame_then_do) (auto simp: frame_scpi_command frame_logged)
  have d: "\<And>s' c. frame s' (s'\<lparr>discharge_comment := c\<rparr>)" by (simp add: frame_def)
  show ?thesis
    unfolding stop_discharge_def Let_def
    apply (rule frame_then_do)
     apply (auto intro: b frame_logged)[1]
    apply (rule frame_trans [OF d])
    apply (rule frame_then_do)
     apply (auto simp: frame_def)[1]
    apply (auto simp: frame_def create_discharge_certificate_def logged_def)
    done
qed

lemma stop_discharge_not_running: "\<not> running (snd (stop_discharge e g s))"
  using stop_discharge_from_stopped [of s e g] by (auto simp: frame_def)

lemma quiet_stop_discharge_False: "quiet s (snd (stop_discharge e False s))"
proof -
  let ?s = "s\<lparr>running := False, paused := False\<rparr>"
  have a: "quiet s ?s" by simp
  have b: "\<And>s'. quiet s' (snd (then_do (scpi_command e ''INPut:STATe 0'' s')
             (\<lambda>ok s1. (Return (), if \<not> ok \<and> \<not> test_mode s1 then logged Failed_stop_command s1 else s1))))"
    by (rule quiet_then_do) (auto simp: quiet_scpi_command)
  have d: "\<And>s' c. quiet s' (s'\<lparr>discharge_comment := c\<rparr>)" by simp
  show ?thesis
    unfolding stop_discharge_def Let_def
    apply (rule quiet_then_do)
     apply (auto intro: quiet_trans [OF a b])[1]
    apply (rule quiet_trans [OF d])
    apply (rule quiet_then_do)
     apply (auto simp: quiet_def)
    done
qed


lemma quiet_after_stop: "quiet s s' \<Longrightarrow> quiet s (snd (stop_discharge e False s'))"
  using quiet_stop_discharge_False quiet_trans by blast

lemma step_commands_Some:
  "step_commands e ty v = Some (fc, lc) \<Longrightarrow>
     (ty = ''CC'' \<or> ty = ''CP'' \<or> ty = ''CV'')
     \<and> fc = ''INPut:FUNCtion '' @ ty \<and> lc = ''STATic:'' @ ty @ '':HIGH:LEVel '' @ py_str e v"
  by (auto simp: step_commands_def split: if_splits)

lemma apply_profile_step_complete:
  "running s \<Longrightarrow> \<not> paused s \<Longrightarrow> length (current_profile_data s) \<le> current_step s \<Longrightarrow>
     apply_profile_step e s = stop_discharge e True s"
  by (simp add: apply_profile_step_def)

lemma apply_profile_step_unsupported:
  assumes "running s" "\<not> paused s" "current_step s < length (current_profile_data s)"
      and "jval_upper (step_get (current_profile_data s ! current_step s) ''type'' (JStr ''CC'')) = Inr ty"
      and "step_commands e ty (step_get (current_profile_data s ! current_step s) ''value'' (JNum 0)) = None"
  shows "\<not> running (snd (apply_profile_step e s))"
    and "certificates (snd (apply_profile_step e s)) = certificates s"
    and "issued (snd (apply_profile_step e s)) = issued s \<or> prefix (issued s) (issued (snd (apply_profile_step e s)))"
proof -
  have eq: "apply_profile_step e s = stop_discharge e False (logged (Unsupported_type ty) s)"
    using assms by (simp add: apply_profile_step_def Let_def)
  have q: "quiet s (snd (apply_profile_step e s))"
    unfolding eq by (rule quiet_after_stop) simp
  show "\<not> running (snd (apply_profile_step e s))"
    unfolding eq by (rule stop_discharge_not_running)
  show "certificates (snd (apply_profile_step e s)) = certificates s"
    using q by (simp add: quiet_def)
  show "issued (snd (apply_profile_step e s)) = issued s \<or> prefix (issued s) (issued (snd (apply_profile_step e s)))"
    using q by (simp add: quiet_def)
qed


lemma apply_profile_step_supported:
  assumes "running s" "\<not> paused s" "current_step s < length (current_profile_data s)"
      and "jval_upper (step_get (current_profile_data s ! current_step s) ''type'' (JStr ''CC'')) = Inr ty"
      and "step_commands e ty (step_get (current_profile_data s ! current_step s) ''value'' (JNum 0)) = Some (fc, lc)"
  shows "apply_profile_step e s =
           then_do (scpi_command e fc s) (\<lambda>func_set s1.
             then_do (scpi_command e lc s1) (\<lambda>level_set s2. check_step_commands e ty func_set level_set s2))"
  using assms by (simp add: apply_profile_step_def Let_def)

lemma quiet_step_tail: "quiet s (snd (check_step_commands e ty f l s))"
  by (auto simp: check_step_commands_def quiet_after_stop)

lemma step_tail_stops:
  "\<not> test_mode s \<Longrightarrow> \<not> (f \<and> l) \<Longrightarrow> \<not> running (snd (check_step_commands e ty f l s))"
  by (simp add: check_step_commands_def stop_discharge_not_running)

lemma step_tail_issued: "prefix (issued s) (issued (snd (check_step_commands e ty f l s)))"
  using quiet_step_tail [of s e ty f l] by (simp add: quiet_def)

lemma apply_profile_step_live_ok:
  assumes "running s" "\<not> paused s" "current_step s < length (current_profile_data s)"
      and "jval_upper (step_get (current_profile_data s ! current_step s) ''type'' (JStr ''CC'')) = Inr ty"
      and "step_commands e ty (step_get (current_profile_data s ! current_step s) ''value'' (JNum 0)) = Some (fc, lc)"
      and "\<not> test_mode s" "connected s" "sock s" "send_ok e (py_strip fc)" "send_ok e (py_strip lc)"
  shows "apply_profile_step e s =
           (Return (), s\<lparr>issued := issued s @ [fc, lc], wire := wire s @ [py_strip fc, py_strip lc]\<rparr>)"
  using assms(6-)
  by (simp add: apply_profile_step_supported [OF assms(1-5)] scpi_command_ok check_step_commands_def)

lemma apply_profile_step_test_mode:
  assumes "running s" "\<not> paused s" "current_step s < length (current_profile_data s)"
      and "jval_upper (step_get (current_profile_data s ! current_step s) ''type'' (JStr ''CC'')) = Inr ty"
      and "step_commands e ty (step_get (current_profile_data s ! current_step s) ''value'' (JNum 0)) = Some (fc, lc)"
      and "test_mode s"
  shows "fst (apply_profile_step e s) = Return ()"
    and "issued (snd (apply_profile_step e s)) = issued s @ [fc, lc]"
    and "running (snd (apply_profile_step e s))"
    and "wire (snd (apply_profile_step e s)) = wire s"
  using assms(1,6)
  by (simp_all add: apply_profile_step_supported [OF assms(1-5)] scpi_command_test_mode check_step_commands_def)

lemma apply_profile_step_live_fail:
  assumes "running s" "\<not> paused s" "current_step s < length (current_profile_data s)"
      and "jval_upper (step_get (current_profile_data s ! current_step s) ''type'' (JStr ''CC'')) = Inr ty"
      and "step_commands e ty (step_get (current_profile_data s ! current_step s) ''value'' (JNum 0)) = Some (fc, lc)"
      and "\<not> test_mode s"
      and "\<not> (connected s \<and> sock s \<and> send_ok e (py_strip fc) \<and> send_ok e (py_strip lc))"
  shows "\<not> running (snd (apply_profile_step e s))"
    and "certificates (snd (apply_profile_step e s)) = certificates s"
proof -
  note eq = apply_profile_step_supported [OF assms(1-5)]
  obtain r1 s1 where c1: "scpi_command e fc s = (r1, s1)" by (cases "scpi_command e fc s") auto
  obtain r2 s2 where c2: "scpi_command e lc s1 = (r2, s2)" by (cases "scpi_command e lc s1") auto
  have f1: "frame s s1" using frame_scpi_command [of s e fc] c1 by simp
  have f2: "frame s1 s2" using frame_scpi_command [of s1 e lc] c2 by simp
  have t1: "\<not> test_mode s1" "\<not> test_mode s2"
    using f1 f2 assms(6) by (simp_all add: frame_def kept_def)
  have q: "quiet s (snd (apply_profile_step e s))"
    unfolding eq
    by (intro quiet_then_do quiet_scpi_command quiet_step_tail)
  then show "certificates (snd (apply_profile_step e s)) = certificates s"
    by (simp add: quiet_def)
  show "\<not> running (snd (apply_profile_step e s))"
  proof (cases r1)
    case (Raise x)
    then show ?thesis
      using scpi_command_raise_stops [of e fc s x] c1 by (simp add: eq)
  next
    case (Return func_set)
    note r1 = this
    show ?thesis
    proof (cases r2)
      case (Raise x)
      then show ?thesis
        using scpi_command_raise_stops [of e lc s1 x] c1 c2 r1 by (simp add: eq)
    next
      case (Return level_set)
      have "\<not> (func_set \<and> level_set)"
      proof (cases "connected s \<and> sock s \<and> send_ok e (py_strip fc)")
        case True
        then have "s1 = s\<lparr>issued := issued s @ [fc], wire := wire s @ [py_strip fc]\<rparr>"
          using scpi_command_ok [of s e fc] assms(6) c1 by simp
        then have "\<not> (connected s1 \<and> sock s1 \<and> send_ok e (py_strip lc))"
          using True assms(7) by simp
        then have "r2 \<noteq> outcome.Return True"
          using scpi_command_fail(1) [OF t1(1), of e lc] c2 by simp
        then show ?thesis using Return by simp
      next
        case False
        then have "r1 \<noteq> outcome.Return True"
          using scpi_command_fail(1) [OF assms(6), of e fc] c1 by simp
        then show ?thesis using r1 by simp
      qed
      then show ?thesis
        using step_tail_stops [OF t1(2), of func_set level_set e ty] c1 c2 r1 Return
        by (simp add: eq)
    qed
  qed
qed


lemma step_commands_supported:
  "ty = ''CC'' \<or> ty = ''CP'' \<or> ty = ''CV'' \<Longrightarrow>
     step_commands e ty v =
       Some (''INPut:FUNCtion '' @ ty, ''STATic:'' @ ty @ '':HIGH:LEVel '' @ py_str e v)"
  by (auto simp: step_commands_def)

lemma step_commands_unsupported:
  "ty \<noteq> ''CC'' \<Longrightarrow> ty \<noteq> ''CP'' \<Longrightarrow> ty \<noteq> ''CV'' \<Longrightarrow> step_commands e ty v = None"
  by (simp add: step_commands_def)

lemma apply_profile_step_issues:
  assumes "running s" "\<not> paused s" "current_step s < length (current_profile_data s)"
      and "jval_upper (step_get (current_profile_data s ! current_step s) ''type'' (JStr ''CC'')) = Inr ty"
      and "step_commands e ty (step_get (current_profile_data s ! current_step s) ''value'' (JNum 0)) = Some (fc, lc)"
      and "db_connect_ok e \<or> current_discharge_id s < 0"
  shows "prefix (issued s @ [fc, lc]) (issued (snd (apply_profile_step e s)))"
proof -
  note eq = apply_profile_step_supported [OF assms(1-5)]
  obtain f where r1: "fst (scpi_command e fc s) = Return f"
    using scpi_command_returns [OF assms(6)] by blast
  define s1 where "s1 = snd (scpi_command e fc s)"
  have c1: "scpi_command e fc s = (Return f, s1)" using r1 by (simp add: s1_def prod_eq_iff)
  have i1: "issued s1 = issued s @ [fc]" "db_connect_ok e \<or> current_discharge_id s1 < 0"
    using scpi_command_fields(2,3) [of e fc s] assms(6) by (auto simp: s1_def)
  obtain l where r2: "fst (scpi_command e lc s1) = Return l"
    using scpi_command_returns [OF i1(2)] by blast
  define s2 where "s2 = snd (scpi_command e lc s1)"
  have c2: "scpi_command e lc s1 = (Return l, s2)" using r2 by (simp add: s2_def prod_eq_iff)
  have i2: "issued s2 = issued s @ [fc, lc]"
    using scpi_command_fields(2) [of e lc s1] i1(1) by (simp add: s2_def)
  show ?thesis
    using step_tail_issued [of s2 e ty f l] by (simp add: eq c1 c2 i2)
qed

text \<open>
  C8. In the running, unpaused state (the state of every call site), \<open>apply_profile_step\<close>
  behaves as follows. If the step index is past the profile, it is \<open>stop_discharge\<close>
  with \<open>generate_report = True\<close>. Otherwise, for a step whose upper-cased type is \<open>ty\<close>:
  if \<open>ty\<close> is none of \<open>CC\<close>, \<open>CP\<close>, \<open>CV\<close> the run is stopped and no report is generated;
  if it is one of them, the commands \<^verbatim>\<open>INPut:FUNCtion <ty>\<close> and then
  \<^verbatim>\<open>STATic:<ty>:HIGH:LEVel <value>\<close> are issued, in this order (whenever no exception
  cuts the function short, which only a database that cannot be opened causes); in
  live mode, when the socket sends both, exactly these two lines go out and the run
  goes on, and when either command fails the run is stopped and no report is generated.
\<close>

theorem C8_apply_step:
  assumes "running s" and "\<not> paused s"
  shows "(length (current_profile_data s) \<le> current_step s \<longrightarrow>
            apply_profile_step e s = stop_discharge e True s)
       \<and> (current_step s < length (current_profile_data s)
            \<and> jval_upper (step_get (current_profile_data s ! current_step s) ''type'' (JStr ''CC'')) = Inr ty
          \<longrightarrow>
            (let v = step_get (current_profile_data s ! current_step s) ''value'' (JNum 0);
                 fc = ''INPut:FUNCtion '' @ ty;
                 lc = ''STATic:'' @ ty @ '':HIGH:LEVel '' @ py_str e v;
                 s' = snd (apply_profile_step e s)
             in (ty \<noteq> ''CC'' \<and> ty \<noteq> ''CP'' \<and> ty \<noteq> ''CV'' \<longrightarrow>
                   \<not> running s' \<and> certificates s' = certificates s)
              \<and> (ty = ''CC'' \<or> ty = ''CP'' \<or> ty = ''CV'' \<longrightarrow>
                   (db_connect_ok e \<or> current_discharge_id s < 0 \<longrightarrow>
                      prefix (issued s @ [fc, lc]) (issued s'))
                 \<and> (\<not> test_mode s \<and> connected s \<and> sock s
                      \<and> send_ok e (py_strip fc) \<and> send_ok e (py_strip lc) \<longrightarrow>
                      apply_profile_step e s =
                        (Return (), s\<lparr>issued := issued s @ [fc, lc],
                                       wire := wire s @ [py_strip fc, py_strip lc]\<rparr>))
                 \<and> (\<not> test_mode s
                      \<and> \<not> (connected s \<and> sock s
                            \<and> send_ok e (py_strip fc) \<and> send_ok e (py_strip lc)) \<longrightarrow>
                      \<not> running s' \<and> certificates s' = certificates s))))"
proof (intro conjI impI)
  assume "length (current_profile_data s) \<le> current_step s"
  then show "apply_profile_step e s = stop_discharge e True s"
    using assms by (rule_tac apply_profile_step_complete)
next
  assume h: "current_step s < length (current_profile_data s)
            \<and> jval_upper (step_get (current_profile_data s ! current_step s) ''type'' (JStr ''CC'')) = Inr ty"
  define v where "v = step_get (current_profile_data s ! current_step s) ''value'' (JNum 0)"
  define fc where "fc = ''INPut:FUNCtion '' @ ty"
  define lc where "lc = ''STATic:'' @ ty @ '':HIGH:LEVel '' @ py_str e v"
  have un: "ty \<noteq> ''CC'' \<and> ty \<noteq> ''CP'' \<and> ty \<noteq> ''CV'' \<Longrightarrow>
              \<not> running (snd (apply_profile_step e s))
              \<and> certificates (snd (apply_profile_step e s)) = certificates s"
    using apply_profile_step_unsupported(1,2) [OF assms, of ty e] h step_commands_unsupported [of ty e v]
    by (simp add: v_def)
  have su: "ty = ''CC'' \<or> ty = ''CP'' \<or> ty = ''CV'' \<Longrightarrow> step_commands e ty v = Some (fc, lc)"
    using step_commands_supported [of ty e v] by (simp add: fc_def lc_def)
  have a: "ty = ''CC'' \<or> ty = ''CP'' \<or> ty = ''CV'' \<Longrightarrow> db_connect_ok e \<or> current_discharge_id s < 0
             \<Longrightarrow> prefix (issued s @ [fc, lc]) (issued (snd (apply_profile_step e s)))"
    using apply_profile_step_issues [OF assms, of ty e fc lc] h su by (simp add: v_def)
  have b: "ty = ''CC'' \<or> ty = ''CP'' \<or> ty = ''CV'' \<Longrightarrow>
             \<not> test_mode s \<and> connected s \<and> sock s \<and> send_ok e (py_strip fc) \<and> send_ok e (py_strip lc)
             \<Longrightarrow> apply_profile_step e s =
                   (Return (), s\<lparr>issued := issued s @ [fc, lc], wire := wire s @ [py_strip fc, py_strip lc]\<rparr>)"
    using apply_profile_step_live_ok [OF assms, of ty e fc lc] h su by (simp add: v_def)
  have c: "ty = ''CC'' \<or> ty = ''CP'' \<or> ty = ''CV'' \<Longrightarrow>
             \<not> test_mode s \<and> \<not> (connected s \<and> sock s \<and> send_ok e (py_strip fc) \<and> send_ok e (py_strip lc))
             \<Longrightarrow> \<not> running (snd (apply_profile_step e s))
                 \<and> certificates (snd (apply_profile_step e s)) = certificates s"
    using apply_profile_step_live_fail [OF assms, of ty e fc lc] h su by (simp add: v_def)
  show "let v = step_get (current_profile_data s ! current_step s) ''value'' (JNum 0);
            fc = ''INPut:FUNCtion '' @ ty;
            lc = ''STATic:'' @ ty @ '':HIGH:LEVel '' @ py_str e v;
            s' = snd (apply_profile_step e s)
        in (ty \<noteq> ''CC'' \<and> ty \<noteq> ''CP'' \<and> ty \<noteq> ''CV'' \<longrightarrow>
              \<not> running s' \<and> certificates s' = certificates s)
         \<and> (ty = ''CC'' \<or> ty = ''CP'' \<or> ty = ''CV'' \<longrightarrow>
              (db_connect_ok e \<or> current_discharge_id s < 0 \<longrightarrow>
                 prefix (issued s @ [fc, lc]) (issued s'))
            \<and> (\<not> test_mode s \<and> connected s \<and> sock s
                 \<and> send_ok e (py_strip fc) \<and> send_ok e (py_strip lc) \<longrightarrow>
                 apply_profile_step e s =
                   (Return (), s\<lparr>issued := issued s @ [fc, lc],
                                  wire := wire s @ [py_strip fc, py_strip lc]\<rparr>))
            \<and> (\<not> test_mode s
                 \<and> \<not> (connected s \<and> sock s
                       \<and> send_ok e (py_strip fc) \<and> send_ok e (py_strip lc)) \<longrightarrow>
                 \<not> running s' \<and> certificates s' = certificates s))"
    unfolding Let_def v_def [symmetric] fc_def [symmetric] lc_def [symmetric]
    using un a b c by blast
qed

theorem C8_apply_step_witness:
  "certificates (snd (apply_profile_step good_env completed_app)) = [1]
   \<and> \<not> running (snd (apply_profile_step good_env completed_app))
   \<and> apply_profile_step good_env running_app =
       (Return (), running_app\<lparr>issued := [''INPut:FUNCtion CC'', ''STATic:CC:HIGH:LEVel 10.0''],
                               wire := [''INPut:FUNCtion CC'', ''STATic:CC:HIGH:LEVel 10.0'']\<rparr>)
   \<and> \<not> running (snd (apply_profile_step dead_socket_env running_app))
   \<and> certificates (snd (apply_profile_step dead_socket_env running_app)) = []"
proof -
  have r: "running running_app" "\<not> paused running_app" "running completed_app" "\<not> paused completed_app"
    by (simp_all add: running_app_def init_app_def completed_app_def)
  have ty: "jval_upper (step_get (current_profile_data running_app ! current_step running_app) ''type'' (JStr ''CC'')) = Inr ''CC''"
    by (simp add: running_app_def init_app_def jval_upper_cc)
  have v: "current_step running_app < length (current_profile_data running_app)"
          "py_str good_env (step_get (current_profile_data running_app ! current_step running_app) ''value'' (JNum 0)) = ''10.0''"
          "py_str dead_socket_env (step_get (current_profile_data running_app ! current_step running_app) ''value'' (JNum 0)) = ''10.0''"
          "\<not> test_mode running_app" "connected running_app" "sock running_app"
          "issued running_app = []" "wire running_app = []" "certificates running_app = []"
          "send_ok good_env = (\<lambda>_. True)" "send_ok dead_socket_env = (\<lambda>_. False)"
    by (simp_all add: running_app_def init_app_def good_env_def dead_socket_env_def)
  have st: "py_strip ''STATic:CC:HIGH:LEVel 10.0'' = ''STATic:CC:HIGH:LEVel 10.0''"
    by (simp add: py_strip_def py_isspace_def)
  have fin: "length (current_profile_data completed_app) \<le> current_step completed_app"
    by (simp add: completed_app_def running_app_def init_app_def)
  have stop: "certificates (snd (stop_discharge good_env True completed_app)) = [1]"
             "\<not> running (snd (stop_discharge good_env True completed_app))"
    by (simp_all add: stop_discharge_def completed_app_def running_app_def init_app_def good_env_def
          Let_def scpi_command_def strip_lits db_call_def finish_discharge_def get_connection_def
          create_discharge_certificate_def)
  from C8_apply_step [OF r(3,4), of good_env] fin stop
  have w1: "certificates (snd (apply_profile_step good_env completed_app)) = [1]
            \<and> \<not> running (snd (apply_profile_step good_env completed_app))"
    by simp
  from C8_apply_step [OF r(1,2), of good_env "''CC''"] ty v
  have w2: "apply_profile_step good_env running_app =
       (Return (), running_app\<lparr>issued := [''INPut:FUNCtion CC'', ''STATic:CC:HIGH:LEVel 10.0''],
                               wire := [''INPut:FUNCtion CC'', ''STATic:CC:HIGH:LEVel 10.0'']\<rparr>)"
    by (simp add: Let_def strip_lits st)
  from C8_apply_step [OF r(1,2), of dead_socket_env "''CC''"] ty v
  have w3: "\<not> running (snd (apply_profile_step dead_socket_env running_app))
            \<and> certificates (snd (apply_profile_step dead_socket_env running_app)) = []"
    by (simp add: Let_def)
  from w1 w2 w3 show ?thesis by simp
qed

subsection \<open>The update loop\<close>

lemma acquired_fields:
  assumes "acquired s s1"
  shows "test_mode s1 = test_mode s"
    "auto_reconnect s1 = auto_reconnect s"
    "test_mode_cv_current_decay s1 = test_mode_cv_current_decay s"
    "connected s1 = connected s"
    "sock s1 = sock s"
    "running s1 = running s"
    "paused s1 = paused s"
    "current_profile_data s1 = current_profile_data s"
    "current_step s1 = current_step s"
    "discharge_comment s1 = discharge_comment s"
    "current_discharge_id s1 = current_discharge_id s"
    "energy_discharged s1 = energy_discharged s"
    "start_time s1 = start_time s"
    "last_time s1 = last_time s"
    "data_x s1 = data_x s"
    "data_voltage s1 = data_voltage s"
    "data_current s1 = data_current s"
    "data_power s1 = data_power s"
    "sim_resistance_factor s1 = sim_resistance_factor s"
    "resume_available s1 = resume_available s"
    "reconnect_job s1 = reconnect_job s"
    "update_loop_jobs s1 = update_loop_jobs s"
    "db s1 = db s"
    "issued s1 = issued s"
    "certificates s1 = certificates s"
    "prefix (log s) (log s1)"
proof -
  have eq: "s1 = s\<lparr>wire := wire s1, log := log s1, sim_voltage := sim_voltage s1, sim_current := sim_current s1, sim_power := sim_power s1, sim_cv_current := sim_cv_current s1\<rparr>"
    using assms by (simp add: acquired_def)
  show "test_mode s1 = test_mode s" using arg_cong [OF eq, of test_mode] by simp
  show "auto_reconnect s1 = auto_reconnect s" using arg_cong [OF eq, of auto_reconnect] by simp
  show "test_mode_cv_current_decay s1 = test_mode_cv_current_decay s" using arg_cong [OF eq, of test_mode_cv_current_decay] by simp
  show "connected s1 = connected s" using arg_cong [OF eq, of connected] by simp
  show "sock s1 = sock s" using arg_cong [OF eq, of sock] by simp
  show "running s1 = running s" using arg_cong [OF eq, of running] by simp
  show "paused s1 = paused s" using arg_cong [OF eq, of paused] by simp
  show "current_profile_data s1 = current_profile_data s" using arg_cong [OF eq, of current_profile_data] by simp
  show "current_step s1 = current_step s" using arg_cong [OF eq, of current_step] by simp
  show "discharge_comment s1 = discharge_comment s" using arg_cong [OF eq, of discharge_comment] by simp
  show "current_discharge_id s1 = current_discharge_id s" using arg_cong [OF eq, of current_discharge_id] by simp
  show "energy_discharged s1 = energy_discharged s" using arg_cong [OF eq, of energy_discharged] by simp
  show "start_time s1 = start_time s" using arg_cong [OF eq, of start_time] by simp
  show "last_time s1 = last_time s" using arg_cong [OF eq, of last_time] by simp
  show "data_x s1 = data_x s" using arg_cong [OF eq, of data_x] by simp
  show "data_voltage s1 = data_voltage s" using arg_cong [OF eq, of data_voltage] by simp
  show "data_current s1 = data_current s" using arg_cong [OF eq, of data_current] by simp
  show "data_power s1 = data_power s" using arg_cong [OF eq, of data_power] by simp
  show "sim_resistance_factor s1 = sim_resistance_factor s" using arg_cong [OF eq, of sim_resistance_factor] by simp
  show "resume_available s1 = resume_available s" using arg_cong [OF eq, of resume_available] by simp
  show "reconnect_job s1 = reconnect_job s" using arg_cong [OF eq, of reconnect_job] by simp
  show "update_loop_jobs s1 = update_loop_jobs s" using arg_cong [OF eq, of update_loop_jobs] by simp
  show "db s1 = db s" using arg_cong [OF eq, of db] by simp
  show "issued s1 = issued s" using arg_cong [OF eq, of issued] by simp
  show "certificates s1 = certificates s" using arg_cong [OF eq, of certificates] by simp
  show "prefix (log s) (log s1)" using assms by (simp add: acquired_def)
qed

lemma parse_measurement_None [simp]: "parse_measurement None u = (None, [])"
  by (simp add: parse_measurement_def)

lemma parse_measurement_Some_arg: "parse_measurement x u = (Some y, l) \<Longrightarrow> \<exists>r. x = Some r"
  by (cases x) simp_all

lemma scpi_query_Some:
  assumes "\<not> test_mode s" "scpi_query e q s = (Return (Some r), s1)"
  shows "acquired s s1"
  using assms
  by (auto simp: acquired_def scpi_query_def Let_def logged_def then_do_def
        split: if_splits option.splits prod.splits outcome.splits)

lemma acquired_trans: "acquired s s1 \<Longrightarrow> acquired s1 s2 \<Longrightarrow> acquired s s2"
proof -
  assume a: "acquired s s1" and b: "acquired s1 s2"
  have p: "prefix (log s) (log s2)"
    using a b by (auto simp: acquired_def)
  have e1: "s1 = s\<lparr>wire := wire s1, log := log s1, sim_voltage := sim_voltage s1, sim_current := sim_current s1, sim_power := sim_power s1, sim_cv_current := sim_cv_current s1\<rparr>" using a by (simp add: acquired_def)
  have e2: "s2 = s1\<lparr>wire := wire s2, log := log s2, sim_voltage := sim_voltage s2, sim_current := sim_current s2, sim_power := sim_power s2, sim_cv_current := sim_cv_current s2\<rparr>"
    using b by (simp add: acquired_def)
  have "s2 = s\<lparr>wire := wire s2, log := log s2, sim_voltage := sim_voltage s2, sim_current := sim_current s2, sim_power := sim_power s2, sim_cv_current := sim_cv_current s2\<rparr>"
    by (subst e2, subst e1) simp
  with p show ?thesis by (simp add: acquired_def)
qed

lemma acquired_log: "prefix (log s) l \<Longrightarrow> acquired s (s\<lparr>log := l\<rparr>)"
  by (simp add: acquired_def)

lemma fetch_measurements_Some:
  assumes "\<not> test_mode s" "fetch_measurements e s = (Return (Some r), s1)"
  shows "acquired s s1"
proof -
  obtain a sa where q1: "scpi_query e ''MEASure:VOLTage?'' s = (a, sa)" by (cases "scpi_query e ''MEASure:VOLTage?'' s")
  obtain b sb where q2: "scpi_query e ''MEASure:CURRent?'' sa = (b, sb)" by (cases "scpi_query e ''MEASure:CURRent?'' sa")
  obtain c sc where q3: "scpi_query e ''MEASure:POWer?'' sb = (c, sc)" by (cases "scpi_query e ''MEASure:POWer?'' sb")
  from assms q1 q2 q3 obtain x y z l where
    a: "a = Return (Some x)" and b: "b = Return (Some y)" and c: "c = Return (Some z)"
    and s1: "s1 = sc\<lparr>log := log sc @ l\<rparr>"
    by (auto simp: fetch_measurements_def then_do_def Let_def logged_def
          dest!: parse_measurement_Some_arg
          split: if_splits outcome.splits option.splits prod.splits)
  have 1: "acquired s sa" by (rule scpi_query_Some [OF assms(1) q1 [unfolded a]])
  have ta: "\<not> test_mode sa" using acquired_fields(1) [OF 1] assms(1) by simp
  have 2: "acquired sa sb" by (rule scpi_query_Some [OF ta q2 [unfolded b]])
  have tb: "\<not> test_mode sb" using acquired_fields(1) [OF 2] ta by simp
  have 3: "acquired sb sc" by (rule scpi_query_Some [OF tb q3 [unfolded c]])
  have 4: "acquired sc s1" unfolding s1 by (rule acquired_log) simp
  show ?thesis by (rule acquired_trans [OF acquired_trans [OF acquired_trans [OF 1 2] 3] 4])
qed

lemma simulate_measurements_acquired: "acquired s (snd (simulate_measurements e s))"
  by (auto simp: acquired_def simulate_measurements_def simulated_reading_def clamp_simulation_def
        Let_def logged_def split: sum.splits jval.splits)


text \<open>A successful acquisition changes only the wire, the log and the simulated cell.\<close>

lemma read_measurements_Some:
  assumes "read_measurements e s = (Return (Some r), s1)"
  shows "acquired s s1"
proof (cases "test_mode s")
  case True
  with assms have "s1 = snd (simulate_measurements e s)"
    by (auto simp: read_measurements_def split: prod.splits)
  then show ?thesis by (simp add: simulate_measurements_acquired)
next
  case False
  with assms have "fetch_measurements e s = (Return (Some r), s1)"
    by (simp add: read_measurements_def)
  from fetch_measurements_Some [OF False this] show ?thesis .
qed

lemma frame_fields:
  assumes "frame s s'"
  shows "current_step s' = current_step s" "energy_discharged s' = energy_discharged s"
    "current_profile_data s' = current_profile_data s" "test_mode s' = test_mode s"
    "start_time s' = start_time s" "last_time s' = last_time s"
    "data_x s' = data_x s" "data_voltage s' = data_voltage s" "data_current s' = data_current s"
    "data_power s' = data_power s" "update_loop_jobs s' = update_loop_jobs s"
    "prefix (log s) (log s')"
  using assms by (simp_all add: frame_def kept_def)

lemma integrate_energy_fields:
  "current_step (integrate_energy t p s) = current_step s"
  "current_profile_data (integrate_energy t p s) = current_profile_data s"
  "test_mode (integrate_energy t p s) = test_mode s"
  "sim_voltage (integrate_energy t p s) = sim_voltage s"
  "sim_current (integrate_energy t p s) = sim_current s"
  "current_discharge_id (integrate_energy t p s) = current_discharge_id s"
  "db (integrate_energy t p s) = db s"
  "running (integrate_energy t p s) = running s"
  "prefix (log s) (log (integrate_energy t p s))"
  by (simp_all add: integrate_energy_def Let_def logged_def)

lemma integrate_energy_value:
  assumes "start_time s = Some t0" "t0 \<noteq> 0" "last_time s = Some t1" "t1 \<noteq> 0"
  shows "energy_discharged (integrate_energy t p s) =
           energy_discharged s + (if 0 < t - t1 \<and> t - t1 < 5 then p * (t - t1) / 3600000 else 0)"
    and "log (integrate_energy t p s) =
           (if 0 < t - t1 \<and> t - t1 < 5 then log s else log s @ [Unusual_step_time (t - t1)])"
  using assms by (simp_all add: integrate_energy_def Let_def logged_def truthy_def)

lemma integrate_energy_cong:
  "start_time s' = start_time s \<Longrightarrow> last_time s' = last_time s \<Longrightarrow>
   energy_discharged s' = energy_discharged s \<Longrightarrow>
     energy_discharged (integrate_energy t p s') = energy_discharged (integrate_energy t p s)"
  by (simp add: integrate_energy_def Let_def logged_def)

lemma record_sample_fields:
  "energy_discharged (snd (record_sample e v c p s)) = energy_discharged (integrate_energy (time_now e) p s)"
  "log (snd (record_sample e v c p s)) = log (integrate_energy (time_now e) p s)"
  "current_step (snd (record_sample e v c p s)) = current_step s"
  "current_profile_data (snd (record_sample e v c p s)) = current_profile_data s"
  "test_mode (snd (record_sample e v c p s)) = test_mode s"
  "sim_voltage (snd (record_sample e v c p s)) = sim_voltage s"
  "sim_current (snd (record_sample e v c p s)) = sim_current s"
  "current_discharge_id (snd (record_sample e v c p s)) = current_discharge_id s"
  "running (snd (record_sample e v c p s)) = running s"
  by (simp_all add: record_sample_def Let_def integrate_energy_fields)



lemma advance_if_complete_energy:
  "energy_discharged (snd (advance_if_complete e v c s)) = energy_discharged s"
  by (auto simp: advance_if_complete_def frame_fields(2) [OF frame_apply_profile_step]
        split: sum.splits)

lemma advance_if_complete_log:
  "prefix (log s) (log (snd (advance_if_complete e v c s)))"
  using frame_fields(12) [OF frame_apply_profile_step [where e = e and s = "s\<lparr>current_step := current_step s + 1\<rparr>"]]
  by (auto simp: advance_if_complete_def split: sum.splits)


lemma snd_then_do_cases:
  "snd (then_do m f) = (case fst m of Return a \<Rightarrow> snd (f a (snd m)) | Raise x \<Rightarrow> snd m)"
  by (cases m; cases "fst m") auto

lemma process_reading_energy:
  "energy_discharged (snd (process_reading e v c p s)) = energy_discharged (integrate_energy (time_now e) p s)"
proof -
  obtain el s3 where r: "record_sample e v c p s = (el, s3)" by (cases "record_sample e v c p s")
  have l: "energy_discharged s3 = energy_discharged (integrate_energy (time_now e) p s)"
    using record_sample_fields(1) [of e v c p s] r by simp
  show ?thesis
    by (simp add: process_reading_def r snd_then_do_cases advance_if_complete_energy l
        split: outcome.splits)
qed

lemma process_reading_log:
  "prefix (log (integrate_energy (time_now e) p s)) (log (snd (process_reading e v c p s)))"
proof -
  obtain el s3 where r: "record_sample e v c p s = (el, s3)" by (cases "record_sample e v c p s")
  have l: "log s3 = log (integrate_energy (time_now e) p s)"
    using record_sample_fields(2) [of e v c p s] r by simp
  let ?r = "log_data_point e (current_discharge_id s3) el v c p (db s3)"
  let ?s4 = "s3\<lparr>db := fst (snd ?r), log := log s3 @ snd (snd ?r)\<rparr>"
  have a: "prefix (log s3) (log ?s4)" by simp
  have b: "prefix (log ?s4) (log (snd (advance_if_complete e v c ?s4)))"
    by (rule advance_if_complete_log)
  have "prefix (log s3) (log (snd (process_reading e v c p s)))"
    using a prefix_order.trans [OF a b]
    by (simp add: process_reading_def r snd_then_do_cases split: outcome.splits)
  then show ?thesis by (simp add: l)
qed


lemma update_loop_body_acquired:
  "read_measurements e s = (Return (Some (v, c, p)), s1) \<Longrightarrow>
     update_loop_body e s = process_reading e v c p s1"
  by (simp add: update_loop_body_def)

lemma run_update_loop_acquired:
  assumes "running s" "connected s" "\<not> paused s"
    and "read_measurements e s = (Return (Some (v, c, p)), s1)"
  shows "fst (run_update_loop e s) = Return ()"
    and "energy_discharged (snd (run_update_loop e s)) = energy_discharged (snd (process_reading e v c p s1))"
    and "current_step (snd (run_update_loop e s)) = current_step (snd (process_reading e v c p s1))"
    and "prefix (log (snd (process_reading e v c p s1))) (log (snd (run_update_loop e s)))"
proof -
  obtain out s5 where pr: "process_reading e v c p s1 = (out, s5)" by (cases "process_reading e v c p s1")
  have b: "update_loop_body e s = (out, s5)" using update_loop_body_acquired [OF assms(4)] pr by simp
  show "fst (run_update_loop e s) = Return ()"
    using assms(1-3) by (cases out) (simp_all add: run_update_loop_def b)
  show "energy_discharged (snd (run_update_loop e s)) = energy_discharged (snd (process_reading e v c p s1))"
    using assms(1-3) by (cases out) (simp_all add: run_update_loop_def b pr logged_def)
  show "current_step (snd (run_update_loop e s)) = current_step (snd (process_reading e v c p s1))"
    using assms(1-3) by (cases out) (simp_all add: run_update_loop_def b pr logged_def)
  show "prefix (log (snd (process_reading e v c p s1))) (log (snd (run_update_loop e s)))"
    using assms(1-3) by (cases out) (simp_all add: run_update_loop_def b pr logged_def)
qed


lemma scpi_query_reply:
  assumes "\<not> test_mode s" "connected s" "sock s" "query_reply e (py_strip q) = Some r"
  shows "scpi_query e q s =
     (Return (Some (py_strip r)),
      s\<lparr>wire := wire s @ [py_strip q],
        log := log s @ (if py_in ''error'' (py_lower (py_strip r)) \<or> py_in ''invalid'' (py_lower (py_strip r))
                        then [Query_returned_error_state q (py_strip r)] else [])\<rparr>)"
  using assms by (simp add: scpi_query_def Let_def logged_def)

lemma lower_lits:
  "py_lower ''350.5 V'' = ''350.5 v''" "py_lower ''10.0 A'' = ''10.0 a''"
  "py_lower ''1000 W'' = ''1000 w''" "py_lower ''-1000 W'' = ''-1000 w''" "py_lower ''abc'' = ''abc''"
  by (simp_all add: py_lower_def py_lower_char_def)

lemma no_error_lits:
  "\<not> py_in ''error'' ''350.5 v''" "\<not> py_in ''invalid'' ''350.5 v''"
  "\<not> py_in ''error'' ''10.0 a''" "\<not> py_in ''invalid'' ''10.0 a''"
  "\<not> py_in ''error'' ''1000 w''" "\<not> py_in ''invalid'' ''1000 w''"
  "\<not> py_in ''error'' ''-1000 w''" "\<not> py_in ''invalid'' ''-1000 w''"
  "\<not> py_in ''error'' ''abc''" "\<not> py_in ''invalid'' ''abc''"
  by (simp_all add: py_startswith_def)

lemma read_good:
  assumes "\<not> test_mode s" "connected s" "sock s"
    and "query_reply e = query_reply good_env"
  shows "read_measurements e s =
     (Return (Some (350.5, 10, 1000)),
      s\<lparr>wire := wire s @ [''MEASure:VOLTage?'', ''MEASure:CURRent?'', ''MEASure:POWer?'']\<rparr>)"
proof -
  let ?s1 = "s\<lparr>wire := wire s @ [''MEASure:VOLTage?'']\<rparr>"
  let ?s2 = "s\<lparr>wire := wire s @ [''MEASure:VOLTage?'', ''MEASure:CURRent?'']\<rparr>"
  let ?s3 = "s\<lparr>wire := wire s @ [''MEASure:VOLTage?'', ''MEASure:CURRent?'', ''MEASure:POWer?'']\<rparr>"
  have 1: "scpi_query e ''MEASure:VOLTage?'' s = (Return (Some ''350.5 V''), ?s1)"
    using assms by (subst scpi_query_reply [where r = "''350.5 V''"]) (simp_all add: strip_lits lower_lits py_startswith_def good_env_def)
  have 2: "scpi_query e ''MEASure:CURRent?'' ?s1 = (Return (Some ''10.0 A''), ?s2)"
    using assms by (subst scpi_query_reply [where r = "''10.0 A''"]) (simp_all add: strip_lits lower_lits py_startswith_def good_env_def)
  have 3: "scpi_query e ''MEASure:POWer?'' ?s2 = (Return (Some ''1000 W''), ?s3)"
    using assms by (subst scpi_query_reply [where r = "''1000 W''"]) (simp_all add: strip_lits lower_lits py_startswith_def good_env_def)
  show ?thesis
    using assms(1,2) by (simp add: read_measurements_def fetch_measurements_def 1 2 3 parse_examples)
qed

text \<open>
  C2. On a running, unpaused, connected tick that acquires a reading (with the time
  stamps of the run set, as \<^verbatim>\<open>start_discharge\<close> and \<^verbatim>\<open>_resume_after_reconnect\<close> set them),
  the energy grows by \<open>power * delta / 3600000\<close> when \<open>0 < delta < 5\<close> and by
  exactly zero otherwise, where \<open>delta\<close> is the time since the previous sample; in the
  second case the warning "Unusual step time" is logged right after what the
  acquisition logged. For 1000 W and one second the growth is 0.0002778 within 1e-6.
\<close>

theorem C2_energy_integration:
  assumes "running s" "connected s" "\<not> paused s"
    and "read_measurements e s = (Return (Some (voltage, current, power_w)), s1)"
    and "start_time s = Some t0" "t0 \<noteq> 0" "last_time s = Some t1" "t1 \<noteq> 0"
  shows "energy_discharged (snd (run_update_loop e s)) =
           energy_discharged s
           + (if 0 < time_now e - t1 \<and> time_now e - t1 < 5
              then power_w * (time_now e - t1) / 3600000 else 0)
       \<and> (\<not> (0 < time_now e - t1 \<and> time_now e - t1 < 5) \<longrightarrow>
            prefix (log s1 @ [Unusual_step_time (time_now e - t1)]) (log (snd (run_update_loop e s))))
       \<and> (power_w = 1000 \<and> time_now e - t1 = 1 \<longrightarrow>
            \<bar>energy_discharged (snd (run_update_loop e s)) - energy_discharged s - 0.0002778\<bar>
              \<le> 1 / 10 ^ 6)"
proof -
  have a: "acquired s s1" by (rule read_measurements_Some [OF assms(4)])
  have f: "start_time s1 = Some t0" "last_time s1 = Some t1" "energy_discharged s1 = energy_discharged s"
    using acquired_fields [OF a] assms(5,7) by simp_all
  have en: "energy_discharged (snd (run_update_loop e s)) =
      energy_discharged s + (if 0 < time_now e - t1 \<and> time_now e - t1 < 5
              then power_w * (time_now e - t1) / 3600000 else 0)"
    using run_update_loop_acquired(2) [OF assms(1-4)]
      integrate_energy_value(1) [OF f(1) assms(6) f(2) assms(8), of "time_now e" power_w]
    by (simp add: process_reading_energy f(3))
  have lg: "prefix (log (integrate_energy (time_now e) power_w s1)) (log (snd (run_update_loop e s)))"
    using process_reading_log [of e power_w s1 voltage current]
      run_update_loop_acquired(4) [OF assms(1-4)] by (rule prefix_order.trans)
  have w: "\<not> (0 < time_now e - t1 \<and> time_now e - t1 < 5) \<longrightarrow>
            prefix (log s1 @ [Unusual_step_time (time_now e - t1)]) (log (snd (run_update_loop e s)))"
    using lg integrate_energy_value(2) [OF f(1) assms(6) f(2) assms(8), of "time_now e" power_w]
    by auto
  have n: "power_w = 1000 \<and> time_now e - t1 = 1 \<longrightarrow>
            \<bar>energy_discharged (snd (run_update_loop e s)) - energy_discharged s - 0.0002778\<bar>
              \<le> 1 / 10 ^ 6"
    by (simp add: en)
  from en w n show ?thesis by blast
qed

theorem C2_energy_integration_witness:
  "energy_discharged (snd (run_update_loop good_env running_app)) = 1000 * 1 / 3600000
   \<and> \<bar>energy_discharged (snd (run_update_loop good_env running_app)) - 0.0002778\<bar> \<le> 1 / 10 ^ 6
   \<and> energy_discharged (snd (run_update_loop late_env running_app)) = 0
   \<and> prefix [Unusual_step_time 10] (log (snd (run_update_loop late_env running_app)))"
proof -
  have r1: "read_measurements good_env running_app =
     (Return (Some (350.5, 10, 1000)),
      running_app\<lparr>wire := wire running_app @ [''MEASure:VOLTage?'', ''MEASure:CURRent?'', ''MEASure:POWer?'']\<rparr>)"
    by (rule read_good) (simp_all add: running_app_def init_app_def)
  have r2: "read_measurements late_env running_app =
     (Return (Some (350.5, 10, 1000)),
      running_app\<lparr>wire := wire running_app @ [''MEASure:VOLTage?'', ''MEASure:CURRent?'', ''MEASure:POWer?'']\<rparr>)"
    by (rule read_good) (simp_all add: running_app_def init_app_def late_env_def)
  have s: "running running_app" "connected running_app" "\<not> paused running_app"
    "start_time running_app = Some 100" "(100::real) \<noteq> 0" "last_time running_app = Some 100"
    "energy_discharged running_app = 0" "log running_app = []"
    by (simp_all add: running_app_def init_app_def)
  have t: "time_now good_env = 101" "time_now late_env = 110"
    by (simp_all add: good_env_def late_env_def)
  show ?thesis
    using C2_energy_integration [OF s(1-3) r1 s(4,5,6,5)]
          C2_energy_integration [OF s(1-3) r2 s(4,5,6,5)]
    by (simp add: s t)
qed



lemma running_app_facts:
  "running running_app" "connected running_app" "\<not> paused running_app" "sock running_app"
  "\<not> test_mode running_app" "current_step running_app = 0"
  "current_profile_data running_app = [cc_step]" "current_discharge_id running_app = 1"
  "start_time running_app = Some 100" "last_time running_app = Some 100"
  "energy_discharged running_app = 0" "log running_app = []" "wire running_app = []"
  by (simp_all add: running_app_def init_app_def)




lemma frame_fetch_measurements: "\<not> test_mode s \<Longrightarrow> frame s (snd (fetch_measurements e s))"
proof -
  assume t: "\<not> test_mode s"
  show ?thesis
    unfolding fetch_measurements_def
    apply (simp add: t)
    apply (rule impI)
    apply (rule frame_then_do, rule frame_scpi_query)
    apply (rule frame_then_do, rule frame_scpi_query)
    apply (rule frame_then_do, rule frame_scpi_query)
    apply (auto simp: frame_def logged_def Let_def split: prod.splits option.splits)
    done
qed

lemma read_measurements_keeps:
  "energy_discharged (snd (read_measurements e s)) = energy_discharged s"
  "start_time (snd (read_measurements e s)) = start_time s"
  "last_time (snd (read_measurements e s)) = last_time s"
  "test_mode (snd (read_measurements e s)) = test_mode s"
  "update_loop_jobs (snd (read_measurements e s)) = update_loop_jobs s"
proof -
  have "test_mode s \<Longrightarrow> snd (read_measurements e s) = snd (simulate_measurements e s)"
    by (simp add: read_measurements_def split: prod.splits)
  then have a: "test_mode s \<Longrightarrow> acquired s (snd (read_measurements e s))"
    by (simp add: simulate_measurements_acquired)
  have b: "\<not> test_mode s \<Longrightarrow> frame s (snd (read_measurements e s))"
    by (simp add: read_measurements_def frame_fetch_measurements)
  show "energy_discharged (snd (read_measurements e s)) = energy_discharged s"
    using acquired_fields(12) [OF a] frame_fields(2) [OF b] by (cases "test_mode s") simp_all
  show "start_time (snd (read_measurements e s)) = start_time s"
    using acquired_fields(13) [OF a] frame_fields(5) [OF b] by (cases "test_mode s") simp_all
  show "last_time (snd (read_measurements e s)) = last_time s"
    using acquired_fields(14) [OF a] frame_fields(6) [OF b] by (cases "test_mode s") simp_all
  show "test_mode (snd (read_measurements e s)) = test_mode s"
    using acquired_fields(1) [OF a] frame_fields(4) [OF b] by (cases "test_mode s") simp_all
  show "update_loop_jobs (snd (read_measurements e s)) = update_loop_jobs s"
    using acquired_fields(22) [OF a] frame_fields(11) [OF b] by (cases "test_mode s") simp_all
qed

lemma update_loop_body_failed:
  assumes "read_measurements e s = (out, s1)" "out \<noteq> Return (Some r)" "\<forall>r. out \<noteq> Return (Some r)"
  shows "energy_discharged (snd (update_loop_body e s)) = energy_discharged s"
proof -
  have k: "energy_discharged s1 = energy_discharged s"
    using read_measurements_keeps(1) [of e s] assms(1) by simp
  show ?thesis
  proof (cases out)
    case (Raise x)
    then show ?thesis by (simp add: update_loop_body_def assms(1) k)
  next
    case (Return reading)
    with assms(3) have n: "reading = None" by (cases reading) auto
    have "energy_discharged (snd (stop_discharge e False (logged Simulation_failed s1))) = energy_discharged s1"
      using frame_fields(2) [OF frame_stop_discharge [of "logged Simulation_failed s1" e False]]
      by (simp add: logged_def)
    then show ?thesis
      by (simp add: update_loop_body_def assms(1) Return n k logged_def)
  qed
qed

lemma run_update_loop_energy_body:
  "energy_discharged (snd (run_update_loop e s)) =
     (if running s \<and> connected s \<and> \<not> paused s then energy_discharged (snd (update_loop_body e s))
      else energy_discharged s)"
proof -
  have h: "energy_discharged (snd (handle_connection_loss e s)) = energy_discharged s"
    by (rule frame_fields(2) [OF frame_handle_connection_loss])
  obtain out s5 where b: "update_loop_body e s = (out, s5)" by (cases "update_loop_body e s")
  obtain o2 s6 where c: "handle_connection_loss e s = (o2, s6)" by (cases "handle_connection_loss e s")
  show ?thesis
    using h by (cases out; cases o2) (simp_all add: run_update_loop_def b c logged_def)
qed

lemma tick_energy:
  "energy_discharged (snd (run_update_loop e s)) =
     (case acquired_power e s of
        Some p \<Rightarrow> energy_discharged (integrate_energy (time_now e) p s)
      | None \<Rightarrow> energy_discharged s)"
proof (cases "running s \<and> connected s \<and> \<not> paused s")
  case False
  then show ?thesis by (auto simp: run_update_loop_energy_body acquired_power_def)
next
  case True
  obtain out s1 where r: "read_measurements e s = (out, s1)" by (cases "read_measurements e s")
  have k: "energy_discharged s1 = energy_discharged s" "start_time s1 = start_time s"
    "last_time s1 = last_time s"
    using read_measurements_keeps [of e s] r by simp_all
  show ?thesis
  proof (cases "\<exists>v c p. out = Return (Some (v, c, p))")
    case True
    then obtain v c p where o: "out = Return (Some (v, c, p))" by blast
    have "energy_discharged (snd (update_loop_body e s)) = energy_discharged (integrate_energy (time_now e) p s1)"
      using update_loop_body_acquired [OF r [unfolded o]] by (simp add: process_reading_energy)
    also have "\<dots> = energy_discharged (integrate_energy (time_now e) p s)"
      by (rule integrate_energy_cong) (simp_all add: k)
    finally show ?thesis
      using \<open>running s \<and> connected s \<and> \<not> paused s\<close>
      by (simp add: run_update_loop_energy_body acquired_power_def r o)
  next
    case False
    then have n: "\<forall>r. out \<noteq> Return (Some r)" by auto
    have "acquired_power e s = None"
      using n by (auto simp: acquired_power_def r split: outcome.splits option.splits)
    moreover have "energy_discharged (snd (update_loop_body e s)) = energy_discharged s"
      using update_loop_body_failed [OF r _ n] n by blast
    ultimately show ?thesis
      using \<open>running s \<and> connected s \<and> \<not> paused s\<close> by (simp add: run_update_loop_energy_body)
  qed
qed

lemma integrate_energy_mono:
  "0 \<le> p \<Longrightarrow> energy_discharged s \<le> energy_discharged (integrate_energy t p s)"
  by (simp add: integrate_energy_def Let_def logged_def)

lemma tick_mono:
  "(case acquired_power e s of Some p \<Rightarrow> 0 \<le> p | None \<Rightarrow> True) \<Longrightarrow>
     energy_discharged s \<le> energy_discharged (snd (run_update_loop e s))"
  by (simp add: tick_energy integrate_energy_mono split: option.splits)

lemma run_ticks_mono:
  "nonneg_powers es s \<Longrightarrow> energy_discharged s \<le> energy_discharged (run_ticks es s)"
proof (induction es arbitrary: s)
  case Nil
  then show ?case by simp
next
  case (Cons e es)
  have "energy_discharged s \<le> energy_discharged (snd (run_update_loop e s))"
    using Cons.prems by (simp add: tick_mono)
  also have "\<dots> \<le> energy_discharged (run_ticks es (snd (run_update_loop e s)))"
    using Cons.prems by (intro Cons.IH) simp
  finally show ?case by simp
qed

lemma run_ticks_append: "run_ticks (es1 @ es2) s = run_ticks es2 (run_ticks es1 s)"
  by (induction es1 arbitrary: s) simp_all

lemma nonneg_powers_append:
  "nonneg_powers (es1 @ es2) s = (nonneg_powers es1 s \<and> nonneg_powers es2 (run_ticks es1 s))"
  by (induction es1 arbitrary: s) auto

text \<open>
  C7. Along every sequence of ticks in which each acquired power reading is
  non-negative, the accumulated energy never decreases: its value after any number of
  ticks is at most its value after any further ticks. The intervals between the ticks
  are arbitrary (an interval outside \<open>0 < delta < 5\<close> contributes zero).
\<close>

theorem C7_energy_monotone:
  "nonneg_powers (es1 @ es2) s \<Longrightarrow>
     energy_discharged (run_ticks es1 s) \<le> energy_discharged (run_ticks (es1 @ es2) s)"
  by (simp add: run_ticks_append nonneg_powers_append run_ticks_mono)

lemma read_replies:
  assumes "\<not> test_mode s" "connected s" "sock s"
    and "query_reply e ''MEASure:VOLTage?'' = Some rv"
    and "query_reply e ''MEASure:CURRent?'' = Some rc"
    and "query_reply e ''MEASure:POWer?'' = Some rp"
  shows "\<exists>l. read_measurements e s =
     (case (fst (parse_measurement (Some (py_strip rv)) ''V''),
            fst (parse_measurement (Some (py_strip rc)) ''A''),
            fst (parse_measurement (Some (py_strip rp)) ''W'')) of
        (Some v, Some c, Some p) \<Rightarrow>
          (Return (Some (v, c, p)),
           s\<lparr>wire := wire s @ [''MEASure:VOLTage?'', ''MEASure:CURRent?'', ''MEASure:POWer?''],
             log := log s @ l\<rparr>)
      | _ \<Rightarrow>
          (Return None,
           s\<lparr>wire := wire s @ [''MEASure:VOLTage?'', ''MEASure:CURRent?'', ''MEASure:POWer?''],
             log := log s @ l @ [Failed_fetch_parse_real]\<rparr>))"
proof -
  obtain l1 where 1: "scpi_query e ''MEASure:VOLTage?'' s =
      (Return (Some (py_strip rv)), s\<lparr>wire := wire s @ [''MEASure:VOLTage?''], log := log s @ l1\<rparr>)"
    using scpi_query_reply [where e = e and s = s and q = "''MEASure:VOLTage?''" and r = rv] assms
    by (simp add: strip_lits)
  let ?s1 = "s\<lparr>wire := wire s @ [''MEASure:VOLTage?''], log := log s @ l1\<rparr>"
  obtain l2 where 2: "scpi_query e ''MEASure:CURRent?'' ?s1 =
      (Return (Some (py_strip rc)),
       s\<lparr>wire := wire s @ [''MEASure:VOLTage?'', ''MEASure:CURRent?''], log := log s @ l1 @ l2\<rparr>)"
    using scpi_query_reply [where e = e and s = ?s1 and q = "''MEASure:CURRent?''" and r = rc] assms
    by (simp add: strip_lits)
  let ?s2 = "s\<lparr>wire := wire s @ [''MEASure:VOLTage?'', ''MEASure:CURRent?''], log := log s @ l1 @ l2\<rparr>"
  obtain l3 where 3: "scpi_query e ''MEASure:POWer?'' ?s2 =
      (Return (Some (py_strip rp)),
       s\<lparr>wire := wire s @ [''MEASure:VOLTage?'', ''MEASure:CURRent?'', ''MEASure:POWer?''],
         log := log s @ l1 @ l2 @ l3\<rparr>)"
    using scpi_query_reply [where e = e and s = ?s2 and q = "''MEASure:POWer?''" and r = rp] assms
    by (simp add: strip_lits)
  obtain v m1 where p1: "parse_measurement (Some (py_strip rv)) ''V'' = (v, m1)"
    by (cases "parse_measurement (Some (py_strip rv)) ''V''")
  obtain c m2 where p2: "parse_measurement (Some (py_strip rc)) ''A'' = (c, m2)"
    by (cases "parse_measurement (Some (py_strip rc)) ''A''")
  obtain p m3 where p3: "parse_measurement (Some (py_strip rp)) ''W'' = (p, m3)"
    by (cases "parse_measurement (Some (py_strip rp)) ''W''")
  have "read_measurements e s =
     (case (v, c, p) of
        (Some v, Some c, Some p) \<Rightarrow>
          (Return (Some (v, c, p)),
           s\<lparr>wire := wire s @ [''MEASure:VOLTage?'', ''MEASure:CURRent?'', ''MEASure:POWer?''],
             log := log s @ (l1 @ l2 @ l3 @ m1 @ m2 @ m3)\<rparr>)
      | _ \<Rightarrow>
          (Return None,
           s\<lparr>wire := wire s @ [''MEASure:VOLTage?'', ''MEASure:CURRent?'', ''MEASure:POWer?''],
             log := log s @ (l1 @ l2 @ l3 @ m1 @ m2 @ m3) @ [Failed_fetch_parse_real]\<rparr>))"
    using assms(1,2)
    by (simp add: read_measurements_def fetch_measurements_def 1 2 3 p1 p2 p3 logged_def
          split: option.splits)
  then show ?thesis by (simp add: p1 p2 p3) blast
qed

lemma negative_power_replies:
  "query_reply negative_power_env ''MEASure:VOLTage?'' = Some ''350.5 V''"
  "query_reply negative_power_env ''MEASure:CURRent?'' = Some ''10.0 A''"
  "query_reply negative_power_env ''MEASure:POWer?'' = Some ''-1000 W''"
  "time_now negative_power_env = 101"
  by (simp_all add: negative_power_env_def good_env_def)

lemma good_replies:
  "query_reply good_env ''MEASure:VOLTage?'' = Some ''350.5 V''"
  "query_reply good_env ''MEASure:CURRent?'' = Some ''10.0 A''"
  "query_reply good_env ''MEASure:POWer?'' = Some ''1000 W''"
  "time_now good_env = 101"
  by (simp_all add: good_env_def)

lemma strip_negative: "py_strip ''-1000 W'' = ''-1000 W''"
  by (simp add: py_strip_def py_isspace_def)

lemma acquired_power_examples:
  "acquired_power good_env running_app = Some 1000"
  "acquired_power negative_power_env running_app = Some (- 1000)"
  using read_replies [OF running_app_facts(5,2,4) good_replies(1-3)]
        read_replies [OF running_app_facts(5,2,4) negative_power_replies(1-3)]
  by (auto simp: acquired_power_def running_app_facts strip_lits strip_negative parse_examples)

theorem C7_energy_monotone_witness:
  "energy_discharged (run_ticks [] running_app)
     \<le> energy_discharged (run_ticks ([] @ [good_env]) running_app)"
  using C7_energy_monotone [of "[]" "[good_env]" running_app]
  by (simp add: acquired_power_examples)

text \<open>
  One tick, one second after the previous sample, that acquires \<open>-1000 W\<close>: the
  accumulated energy decreases.
\<close>

theorem C7_counterexample:
  "acquired_power negative_power_env running_app = Some (- 1000)
   \<and> 0 < time_now negative_power_env - the (last_time running_app)
   \<and> time_now negative_power_env - the (last_time running_app) < 5
   \<and> energy_discharged (run_ticks [negative_power_env] running_app)
       < energy_discharged (run_ticks [] running_app)"
  by (simp add: tick_energy acquired_power_examples negative_power_replies running_app_facts
        integrate_energy_def truthy_def Let_def)

end
